theory Spec2Isabelle
  imports Complex_Main "HOL-Library.Signed_Division" "HOL-Library.Sublist"
begin

section \<open>Scalars\<close>

text \<open>
  The kernels of \<^verbatim>\<open>GeneralEWCUDA.cu\<close> compute on \<^verbatim>\<open>float\<close> and \<^verbatim>\<open>int64_t\<close>.
  A \<^verbatim>\<open>float\<close> is idealised as a real number: arithmetic is exact, and there is no
  rounding, overflow, infinity or NaN; the section on the stored channels adds the
  infinities and NaN where a property depends on what a voxel may hold. A quotient whose divisor is zero has no real value
  in the source (the hardware yields an infinity or a NaN); statements whose conclusion
  depends on the value of such a quotient assume the divisor to be non-zero.
  An \<^verbatim>\<open>int64_t\<close> is an unbounded integer: signed overflow is undefined in the source
  and is not modelled. Integer \<^verbatim>\<open>/\<close> and \<^verbatim>\<open>%\<close> truncate towards zero
  (\<open>sdiv\<close> and \<open>smod\<close>).
\<close>

definition float_of_int64 :: "int \<Rightarrow> real" where
  \<comment> \<open>\<^verbatim>\<open>static_cast<float>(x)\<close>\<close>
  "float_of_int64 x = real_of_int x"

definition int64_of_float :: "real \<Rightarrow> int" where
  \<comment> \<open>\<^verbatim>\<open>static_cast<int64_t>(u)\<close>: the fractional part is discarded\<close>
  "int64_of_float u = (if 0 \<le> u then \<lfloor>u\<rfloor> else \<lceil>u\<rceil>)"

definition int_of_bool :: "bool \<Rightarrow> int" where
  \<comment> \<open>\<^verbatim>\<open>int(i == 0)\<close>, \<^verbatim>\<open>int64_t(i == 0)\<close>\<close>
  "int_of_bool b = (if b then 1 else 0)"

section \<open>Indexer primitives\<close>

text \<open>
  \<^verbatim>\<open>NDArrayIndexer\<close> and \<^verbatim>\<open>TransformIndexer\<close> are declared in
  \<^verbatim>\<open>open3d/core/kernel/GeneralIndexer.h\<close>, which is not among the sources at hand. Their
  operations are modelled from sections 4.1 and 4.2 of the specification.
\<close>

record NDArrayIndexer =
  shape :: "int list"


definition WorkloadToCoord3 :: "NDArrayIndexer \<Rightarrow> int \<Rightarrow> int \<times> int \<times> int" where
  \<comment> \<open>Modelled from the spec: \<^verbatim>\<open>NDArrayIndexer::WorkloadToCoord\<close> (3-D) is missing; a linear
      workload is decomposed into coordinates, innermost axis fastest.\<close>
  "WorkloadToCoord3 ndi workload =
     (let x = workload smod (shape ndi ! 2);
          rest = workload sdiv (shape ndi ! 2)
      in (x, rest smod (shape ndi ! 1), rest sdiv (shape ndi ! 1)))"

definition CoordToWorkload2 :: "NDArrayIndexer \<Rightarrow> int \<Rightarrow> int \<Rightarrow> int" where
  \<comment> \<open>Modelled from the spec: \<^verbatim>\<open>NDArrayIndexer::CoordToWorkload\<close> (2-D) is missing; the
      inverse of \<open>WorkloadToCoord2\<close>.\<close>
  "CoordToWorkload2 ndi x y = y * (shape ndi ! 1) + x"

definition CoordToWorkload4 :: "NDArrayIndexer \<Rightarrow> int \<Rightarrow> int \<Rightarrow> int \<Rightarrow> int \<Rightarrow> int" where
  \<comment> \<open>Modelled from the spec: \<^verbatim>\<open>NDArrayIndexer::CoordToWorkload\<close> (4-D) is missing; the
      indexer packs \<open>(x_voxel, y_voxel, z_voxel, block_idx)\<close> with the block index as the
      outermost axis.\<close>
  "CoordToWorkload4 ndi x y z t =
     ((t * (shape ndi ! 1) + z) * (shape ndi ! 2) + y) * (shape ndi ! 3) + x"

definition InBoundary :: "NDArrayIndexer \<Rightarrow> real \<Rightarrow> real \<Rightarrow> bool" where
  \<comment> \<open>Modelled from the spec: \<^verbatim>\<open>NDArrayIndexer::InBoundary\<close> is missing;
      \<open>0 \<le> u < W \<and> 0 \<le> v < H\<close> after truncation to integer.\<close>
  "InBoundary ndi u v =
     (0 \<le> int64_of_float u \<and> int64_of_float u < shape ndi ! 1 \<and>
      0 \<le> int64_of_float v \<and> int64_of_float v < shape ndi ! 0)"

definition NumElements2 :: "NDArrayIndexer \<Rightarrow> int" where
  \<comment> \<open>Modelled from the spec: \<^verbatim>\<open>NDArrayIndexer::NumElements\<close> is missing; the product of
      the extents of a 2-D indexer.\<close>
  "NumElements2 ndi = (shape ndi ! 0) * (shape ndi ! 1)"

section \<open>Transform primitives\<close>

record TransformIndexer =
  fx :: real
  fy :: real
  cx :: real
  cy :: real
  extrinsic :: "nat \<Rightarrow> nat \<Rightarrow> real"
  scale :: real

definition RigidTransform :: "TransformIndexer \<Rightarrow> real \<Rightarrow> real \<Rightarrow> real \<Rightarrow> real \<times> real \<times> real" where
  \<comment> \<open>Modelled from the spec: \<^verbatim>\<open>TransformIndexer::RigidTransform\<close> is missing; it applies
      the extrinsics after scaling by the voxel size.\<close>
  "RigidTransform ti x_in y_in z_in =
     (let x = x_in * scale ti; y = y_in * scale ti; z = z_in * scale ti
      in (x * extrinsic ti 0 0 + y * extrinsic ti 0 1 + z * extrinsic ti 0 2 + extrinsic ti 0 3,
          x * extrinsic ti 1 0 + y * extrinsic ti 1 1 + z * extrinsic ti 1 2 + extrinsic ti 1 3,
          x * extrinsic ti 2 0 + y * extrinsic ti 2 1 + z * extrinsic ti 2 2 + extrinsic ti 2 3))"

definition Project :: "TransformIndexer \<Rightarrow> real \<Rightarrow> real \<Rightarrow> real \<Rightarrow> real \<times> real" where
  \<comment> \<open>Modelled from the spec: \<^verbatim>\<open>TransformIndexer::Project\<close> is missing; pinhole
      projection \<open>u = fx\<cdot>xc/zc + cx\<close>, \<open>v = fy\<cdot>yc/zc + cy\<close>.\<close>
  "Project ti xc yc zc = (fx ti * xc / zc + cx ti, fy ti * yc / zc + cy ti)"




definition TransformIndexer3 :: "(nat \<Rightarrow> nat \<Rightarrow> real) \<Rightarrow> (nat \<Rightarrow> nat \<Rightarrow> real) \<Rightarrow> real \<Rightarrow> TransformIndexer" where
  \<comment> \<open>Modelled from the spec: the constructor
      \<^verbatim>\<open>TransformIndexer(intrinsics, extrinsics, voxel_size)\<close> is missing.\<close>
  "TransformIndexer3 intr extr vs =
     \<lparr>fx = intr 0 0, fy = intr 1 1, cx = intr 0 2, cy = intr 1 2,
      extrinsic = extr, scale = vs\<rparr>"

section \<open>Tensors, and the parallel launcher\<close>

text \<open>
  A tensor is its shape and its elements, addressed by the linear workload of the indexer
  that reads it. A voxel is the pair of \<^verbatim>\<open>float\<close> channels at one workload of the block
  buffer: \<^verbatim>\<open>voxel_ptr[0]\<close> is the TSDF, \<^verbatim>\<open>voxel_ptr[1]\<close> the weight. Plain arrays read
  through raw pointers (\<^verbatim>\<open>indices_ptr\<close>, \<^verbatim>\<open>block_keys_ptr\<close>, \<^verbatim>\<open>nb_indices_ptr\<close>,
  \<^verbatim>\<open>nb_masks_ptr\<close>) are functions of the offset.
\<close>

record voxel =
  tsdf :: real
  weight :: real

type_synonym voxel_buffer = "int \<Rightarrow> voxel"

text \<open>
  The tensors and scalars that the kernels fetch from their maps, under the names of the
  source; \<open>indices_shape0\<close> is \<^verbatim>\<open>indices.GetShape()[0]\<close>. The block buffer, which
  Integrate updates in place, is passed beside them.
\<close>

record srcs =
  depth :: "int \<Rightarrow> real"
  depth_shape :: "int list"
  intrinsics :: "nat \<Rightarrow> nat \<Rightarrow> real"
  extrinsics :: "nat \<Rightarrow> nat \<Rightarrow> real"
  depth_scale :: real
  depth_max :: real
  sdf_trunc :: real
  voxel_size :: real
  resolution :: int
  indices :: "int \<Rightarrow> int"
  indices_shape0 :: int
  block_keys :: "int \<Rightarrow> int"
  block_values_shape :: "int list"
  nb_indices :: "int \<Rightarrow> int"
  nb_masks :: "int \<Rightarrow> bool"

text \<open>
  \<^verbatim>\<open>CUDALauncher::LaunchGeneralKernel(n, f)\<close> runs \<open>f\<close> once for every workload of
  \<open>[0, n)\<close>, in no guaranteed order. A launch is modelled by a schedule, a list holding
  every workload once, and the closure is run on the state for each workload in turn.
  A workload runs as a whole: the workloads of the launches modelled here communicate
  through a counter incremented atomically or not at all, and the properties below do
  not depend on how the steps of two workloads interleave.
\<close>

definition is_schedule :: "int \<Rightarrow> int list \<Rightarrow> bool" where
  "is_schedule n sched = (distinct sched \<and> set sched = {0..<n})"

definition LaunchGeneralKernel :: "int list \<Rightarrow> (int \<Rightarrow> 's \<Rightarrow> 's) \<Rightarrow> 's \<Rightarrow> 's" where
  "LaunchGeneralKernel sched f s = fold f sched s"

section \<open>The Integrate kernel\<close>

definition resolution3 :: "srcs \<Rightarrow> int" where
  "resolution3 a = resolution a * resolution a * resolution a"

definition voxel_indexer :: "srcs \<Rightarrow> NDArrayIndexer" where
  "voxel_indexer a = \<lparr>shape = [resolution a, resolution a, resolution a]\<rparr>"

definition image_indexer :: "srcs \<Rightarrow> NDArrayIndexer" where
  "image_indexer a = \<lparr>shape = depth_shape a\<rparr>"

definition voxel_block_buffer_indexer :: "srcs \<Rightarrow> NDArrayIndexer" where
  "voxel_block_buffer_indexer a = \<lparr>shape = block_values_shape a\<rparr>"

definition transform_indexer :: "srcs \<Rightarrow> TransformIndexer" where
  "transform_indexer a = TransformIndexer3 (intrinsics a) (extrinsics a) (voxel_size a)"

text \<open>The stages of one workload of the closure, lines 202 to 253 of the source.\<close>

definition integrate_block_idx :: "srcs \<Rightarrow> int \<Rightarrow> int" where
  "integrate_block_idx a workload_idx = indices a (workload_idx sdiv resolution3 a)"

definition integrate_voxel_coord :: "srcs \<Rightarrow> int \<Rightarrow> int \<times> int \<times> int" where
  "integrate_voxel_coord a workload_idx =
     WorkloadToCoord3 (voxel_indexer a) (workload_idx smod resolution3 a)"

definition integrate_camera_coord :: "srcs \<Rightarrow> int \<Rightarrow> real \<times> real \<times> real" where
  "integrate_camera_coord a workload_idx =
     (let block_idx = integrate_block_idx a workload_idx;
          xb = block_keys a (block_idx * 3 + 0);
          yb = block_keys a (block_idx * 3 + 1);
          zb = block_keys a (block_idx * 3 + 2);
          (xv, yv, zv) = integrate_voxel_coord a workload_idx;
          x = xb * resolution a + xv;
          y = yb * resolution a + yv;
          z = zb * resolution a + zv
      in RigidTransform (transform_indexer a)
           (float_of_int64 x) (float_of_int64 y) (float_of_int64 z))"

definition integrate_zc :: "srcs \<Rightarrow> int \<Rightarrow> real" where
  "integrate_zc a workload_idx = (case integrate_camera_coord a workload_idx of (xc, yc, zc) \<Rightarrow> zc)"

definition integrate_pixel :: "srcs \<Rightarrow> int \<Rightarrow> real \<times> real" where
  "integrate_pixel a workload_idx =
     (case integrate_camera_coord a workload_idx of
        (xc, yc, zc) \<Rightarrow> Project (transform_indexer a) xc yc zc)"

definition integrate_in_image :: "srcs \<Rightarrow> int \<Rightarrow> bool" where
  "integrate_in_image a workload_idx =
     (case integrate_pixel a workload_idx of (u, v) \<Rightarrow> InBoundary (image_indexer a) u v)"

definition integrate_depth_sample :: "srcs \<Rightarrow> int \<Rightarrow> real" where
  "integrate_depth_sample a workload_idx =
     (case integrate_pixel a workload_idx of
        (u, v) \<Rightarrow>
          let workload_image =
                CoordToWorkload2 (image_indexer a) (int64_of_float u) (int64_of_float v)
          in depth a workload_image / depth_scale a)"

definition integrate_workload_voxel :: "srcs \<Rightarrow> int \<Rightarrow> int" where
  "integrate_workload_voxel a workload_idx =
     (case integrate_voxel_coord a workload_idx of
        (xv, yv, zv) \<Rightarrow>
          CoordToWorkload4 (voxel_block_buffer_indexer a) xv yv zv
            (integrate_block_idx a workload_idx))"

definition TSDFIntegrate_workload :: "srcs \<Rightarrow> int \<Rightarrow> voxel_buffer \<Rightarrow> voxel_buffer" where
  "TSDFIntegrate_workload a workload_idx block_values =
     (if \<not> integrate_in_image a workload_idx then block_values
      else
        let depth = integrate_depth_sample a workload_idx;
            zc = integrate_zc a workload_idx;
            sdf = depth - zc
        in if depth \<le> 0 \<or> zc \<le> 0 \<or> sdf < - sdf_trunc a then block_values
           else
             let sdf = (if sdf < sdf_trunc a then sdf else sdf_trunc a);
                 sdf = sdf / sdf_trunc a;
                 workload_voxel = integrate_workload_voxel a workload_idx;
                 tsdf_sum = tsdf (block_values workload_voxel);
                 weight_sum = weight (block_values workload_voxel)
             in block_values
                  (workload_voxel :=
                     \<lparr>tsdf = (weight_sum * tsdf_sum + sdf) / (weight_sum + 1),
                      weight = weight_sum + 1\<rparr>))"

definition CUDATSDFIntegrateKernel :: "srcs \<Rightarrow> int list \<Rightarrow> voxel_buffer \<Rightarrow> voxel_buffer" where
  "CUDATSDFIntegrateKernel a sched block_values =
     LaunchGeneralKernel sched (TSDFIntegrate_workload a) block_values"

definition integrate_n :: "srcs \<Rightarrow> int" where
  \<comment> \<open>\<^verbatim>\<open>n = indices.GetShape()[0] * resolution3\<close>\<close>
  "integrate_n a = indices_shape0 a * resolution3 a"

text \<open>A small frame used to run the kernels: one block of \<open>2\<times>2\<times>2\<close> voxels of size one
  with no allocated neighbour, a camera one unit behind the origin, a \<open>4\<times>4\<close> depth
  image.\<close>

definition shifted_extrinsic :: "nat \<Rightarrow> nat \<Rightarrow> real" where
  "shifted_extrinsic i j = (if i = j then 1 else if i = 2 \<and> j = 3 then 1 else 0)"

definition unit_intrinsic :: "nat \<Rightarrow> nat \<Rightarrow> real" where
  "unit_intrinsic i j = (if i = j then 1 else 0)"

definition frame1 :: srcs where
  "frame1 =
     \<lparr>depth = (\<lambda>i. 3 / 2), depth_shape = [4, 4],
      intrinsics = unit_intrinsic, extrinsics = shifted_extrinsic,
      depth_scale = 1, depth_max = 3, sdf_trunc = 1, voxel_size = 1, resolution = 2,
      indices = (\<lambda>i. 0), indices_shape0 = 1, block_keys = (\<lambda>i. 0),
      block_values_shape = [1, 2, 2, 2],
      nb_indices = (\<lambda>i. 0), nb_masks = (\<lambda>i. i = 13)\<rparr>"

definition fresh_block :: voxel_buffer where
  "fresh_block = (\<lambda>p. \<lparr>tsdf = 0, weight = 0\<rparr>)"

section \<open>The Unproject kernel\<close>


definition depth_ndi :: "srcs \<Rightarrow> NDArrayIndexer" where
  "depth_ndi a = \<lparr>shape = depth_shape a\<rparr>"



definition unproject_n :: "srcs \<Rightarrow> int" where
  \<comment> \<open>\<^verbatim>\<open>n = depth_ndi.NumElements()\<close>\<close>
  "unproject_n a = NumElements2 (depth_ndi a)"


section \<open>The Touch kernel\<close>

type_synonym block_key = "int \<times> int \<times> int"

definition To_Int64 :: "real \<Rightarrow> int" where
  \<comment> \<open>Modelled from the spec: \<^verbatim>\<open>Tensor::To(core::Dtype::Int64)\<close> is missing; the spec calls
      it a cast to i64, the conversion that it describes as truncating to integer where
      the Integrate kernel applies it to \<open>u\<close> and \<open>v\<close>.\<close>
  "To_Int64 x = int64_of_float x"

definition touch_block_size :: "srcs \<Rightarrow> real" where
  "touch_block_size a = voxel_size a * float_of_int64 (resolution a)"

definition touch_block_coordi :: "srcs \<Rightarrow> (real \<times> real \<times> real) list \<Rightarrow> block_key list" where
  "touch_block_coordi a pcd =
     (let block_size = touch_block_size a;
          block_coordd = map (\<lambda>(x, y, z). (x / block_size, y / block_size, z / block_size)) pcd
      in map (\<lambda>(x, y, z). (To_Int64 x, To_Int64 y, To_Int64 z)) block_coordd)"

definition IndexGet :: "'a list \<Rightarrow> bool list \<Rightarrow> 'a list" where
  \<comment> \<open>Modelled from the spec: \<^verbatim>\<open>Tensor::IndexGet\<close> with a mask is missing; it gathers the
      rows whose mask is true.\<close>
  "IndexGet xs masks = map fst (filter snd (zip xs masks))"

definition touch_nb_offset :: "nat \<Rightarrow> block_key" where
  "touch_nb_offset nb =
     (let dz = int nb sdiv 9; dy = (int nb smod 9) sdiv 3; dx = int nb smod 3
      in (dx - 1, dy - 1, dz - 1))"

definition CUDATSDFTouchKernel ::
  "srcs \<Rightarrow> (block_key list \<Rightarrow> bool list) \<Rightarrow> (real \<times> real \<times> real) list \<Rightarrow> block_key list" where
  \<comment> \<open>\<open>Activate\<close> stands for the masks returned by the external hash map\<close>
  "CUDATSDFTouchKernel a Activate pcd =
     (let block_coordi = touch_block_coordi a pcd;
          block_masks = Activate block_coordi;
          block_coords = IndexGet block_coordi block_masks
      in concat
           (map (\<lambda>nb. map (\<lambda>(x, y, z).
                              case touch_nb_offset nb of (dx, dy, dz) \<Rightarrow> (x + dx, y + dy, z + dz))
                         block_coords)
              [0..<27]))"

section \<open>The SurfaceExtraction kernel\<close>

record extraction_state =
  count :: int
  points :: "int \<rightharpoonup> real \<times> real \<times> real"

text \<open>
  \<open>count\<close> is the cell behind \<^verbatim>\<open>count_ptr\<close>; \<open>points\<close> holds the rows of the buffer behind
  \<^verbatim>\<open>points_ptr\<close> that have been written. The source checks no row against the extent of the
  buffer, so a write is recorded at whatever row it lands.
\<close>

definition n_blocks :: "srcs \<Rightarrow> int" where
  \<comment> \<open>\<^verbatim>\<open>int n_blocks = indices.GetShape()[0]\<close>\<close>
  "n_blocks a = indices_shape0 a"

definition extraction_n :: "srcs \<Rightarrow> int" where
  \<comment> \<open>\<^verbatim>\<open>n = n_blocks * resolution3\<close>\<close>
  "extraction_n a = n_blocks a * resolution3 a"

definition points_capacity :: "srcs \<Rightarrow> int" where
  \<comment> \<open>the rows of \<^verbatim>\<open>points\<close>: \<^verbatim>\<open>std::min(n * 3, int64_t(10000000))\<close>\<close>
  "points_capacity a = min (extraction_n a * 3) 10000000"

text \<open>The stages of one workload of the closure, lines 318 to 372 of the source.\<close>

definition extraction_voxel_coord :: "srcs \<Rightarrow> int \<Rightarrow> int \<times> int \<times> int" where
  "extraction_voxel_coord a workload_idx =
     WorkloadToCoord3 (voxel_indexer a) (workload_idx smod resolution3 a)"

definition extraction_workload_voxel :: "srcs \<Rightarrow> int \<Rightarrow> int" where
  "extraction_workload_voxel a workload_idx =
     (let workload_block_idx = workload_idx sdiv resolution3 a;
          block_idx = indices a workload_block_idx;
          (xv, yv, zv) = extraction_voxel_coord a workload_idx
      in CoordToWorkload4 (voxel_block_buffer_indexer a) xv yv zv block_idx)"

definition extraction_world_coord :: "srcs \<Rightarrow> int \<Rightarrow> int \<times> int \<times> int" where
  "extraction_world_coord a workload_idx =
     (let workload_block_idx = workload_idx sdiv resolution3 a;
          block_idx = indices a workload_block_idx;
          xb = block_keys a (block_idx * 3 + 0);
          yb = block_keys a (block_idx * 3 + 1);
          zb = block_keys a (block_idx * 3 + 2);
          (xv, yv, zv) = extraction_voxel_coord a workload_idx
      in (xb * resolution a + xv, yb * resolution a + yv, zb * resolution a + zv))"

definition extraction_nb_offset :: "srcs \<Rightarrow> int \<Rightarrow> int \<Rightarrow> int" where
  \<comment> \<open>\<^verbatim>\<open>nb_idx * n_blocks + workload_block_idx\<close>, the offset read in both neighbour tables\<close>
  "extraction_nb_offset a workload_idx i =
     (let workload_block_idx = workload_idx sdiv resolution3 a;
          (xv, yv, zv) = extraction_voxel_coord a workload_idx;
          xv_i = xv + int_of_bool (i = 0);
          yv_i = yv + int_of_bool (i = 1);
          zv_i = zv + int_of_bool (i = 2);
          dxb = xv_i sdiv resolution a;
          dyb = yv_i sdiv resolution a;
          dzb = zv_i sdiv resolution a;
          nb_idx = (dxb + 1) + (dyb + 1) * 3 + (dzb + 1) * 9
      in nb_idx * n_blocks a + workload_block_idx)"

definition extraction_workload_voxel_i :: "srcs \<Rightarrow> int \<Rightarrow> int \<Rightarrow> int" where
  "extraction_workload_voxel_i a workload_idx i =
     (let (xv, yv, zv) = extraction_voxel_coord a workload_idx;
          xv_i = xv + int_of_bool (i = 0);
          yv_i = yv + int_of_bool (i = 1);
          zv_i = zv + int_of_bool (i = 2);
          dxb = xv_i sdiv resolution a;
          dyb = yv_i sdiv resolution a;
          dzb = zv_i sdiv resolution a;
          block_idx_i = nb_indices a (extraction_nb_offset a workload_idx i)
      in CoordToWorkload4 (voxel_block_buffer_indexer a)
           (xv_i - dxb * resolution a) (yv_i - dyb * resolution a) (zv_i - dzb * resolution a)
           block_idx_i)"

definition extraction_point :: "srcs \<Rightarrow> int \<Rightarrow> int \<Rightarrow> real \<Rightarrow> real \<times> real \<times> real" where
  \<comment> \<open>the three floats written at lines 383 to 388\<close>
  "extraction_point a workload_idx i ratio =
     (case extraction_world_coord a workload_idx of
        (x, y, z) \<Rightarrow>
          (voxel_size a * (float_of_int64 x + ratio * float_of_int64 (int_of_bool (i = 0))),
           voxel_size a * (float_of_int64 y + ratio * float_of_int64 (int_of_bool (i = 1))),
           voxel_size a * (float_of_int64 z + ratio * float_of_int64 (int_of_bool (i = 2)))))"

definition SurfaceExtraction_axis ::
  "srcs \<Rightarrow> voxel_buffer \<Rightarrow> int \<Rightarrow> int \<Rightarrow> extraction_state \<Rightarrow> extraction_state" where
  \<comment> \<open>the body of \<^verbatim>\<open>for (int i = 0; i < 3; ++i)\<close>\<close>
  "SurfaceExtraction_axis a block_values workload_idx i st =
     (let tsdf_o = tsdf (block_values (extraction_workload_voxel a workload_idx));
          block_mask_i = nb_masks a (extraction_nb_offset a workload_idx i)
      in if \<not> block_mask_i then st
         else
           let voxel_i = block_values (extraction_workload_voxel_i a workload_idx i);
               tsdf_i = tsdf voxel_i;
               weight_i = weight voxel_i
           in if weight_i > 0 \<and> tsdf_i * tsdf_o < 0
              then
                let ratio = tsdf_i / (tsdf_i - tsdf_o);
                    idx = count st
                in \<lparr>count = count st + 1,
                    points = (points st)(idx \<mapsto> extraction_point a workload_idx i ratio)\<rparr>
              else st)"

definition SurfaceExtraction_workload ::
  "srcs \<Rightarrow> voxel_buffer \<Rightarrow> int \<Rightarrow> extraction_state \<Rightarrow> extraction_state" where
  "SurfaceExtraction_workload a block_values workload_idx st =
     (let weight_o = weight (block_values (extraction_workload_voxel a workload_idx))
      in if weight_o = 0 then st
         else fold (SurfaceExtraction_axis a block_values workload_idx) [0, 1, 2] st)"

definition extraction_start :: extraction_state where
  \<comment> \<open>\<^verbatim>\<open>count\<close> is created holding 0; no row of \<^verbatim>\<open>points\<close> has been written\<close>
  "extraction_start = \<lparr>count = 0, points = Map.empty\<rparr>"

definition CUDASurfaceExtractionKernel ::
  "srcs \<Rightarrow> voxel_buffer \<Rightarrow> int list \<Rightarrow> extraction_state" where
  "CUDASurfaceExtractionKernel a block_values sched =
     LaunchGeneralKernel sched (SurfaceExtraction_workload a block_values) extraction_start"

section \<open>Marching Cubes, pass 1: central differences\<close>

text \<open>
  The normal at the origin of a voxel (lines 613 to 649) and the normal at the far end of
  an edge (lines 692 to 728) are computed by two copies of one loop. Each copy fills the
  arrays \<^verbatim>\<open>xvs, yvs, zvs\<close> and \<^verbatim>\<open>dxbs, dybs, dzbs\<close>, of two entries each, and reads the
  TSDF of the two offset voxels.
\<close>

record central_difference =
  xvs :: "int list"
  yvs :: "int list"
  zvs :: "int list"
  dxbs :: "int list"
  dybs :: "int list"
  dzbs :: "int list"

definition origin_offsets :: "srcs \<Rightarrow> int \<times> int \<times> int \<Rightarrow> int \<Rightarrow> central_difference" where
  \<comment> \<open>lines 614 to 628\<close>
  "origin_offsets a v axis =
     (case v of
        (xv, yv, zv) \<Rightarrow>
          let xvs1 = xv + int_of_bool (axis = 0);
              yvs1 = yv + int_of_bool (axis = 1);
              zvs1 = zv + int_of_bool (axis = 2);
              xvs0 = xv - int_of_bool (axis = 0);
              yvs0 = yv - int_of_bool (axis = 1);
              zvs0 = zv - int_of_bool (axis = 2);
              dxbs1 = xvs1 sdiv resolution a;
              dybs1 = xvs1 sdiv resolution a;
              dzbs1 = zvs1 sdiv resolution a;
              dxbs0 = (if xvs0 \<ge> 0 then 0 else - 1);
              dybs0 = (if yvs0 \<ge> 0 then 0 else - 1);
              dzbs0 = (if zvs0 \<ge> 0 then 0 else - 1)
          in \<lparr>xvs = [xvs0, xvs1], yvs = [yvs0, yvs1], zvs = [zvs0, zvs1],
              dxbs = [dxbs0, dxbs1], dybs = [dybs0, dybs1], dzbs = [dzbs0, dzbs1]\<rparr>)"

definition edge_offsets :: "srcs \<Rightarrow> int \<times> int \<times> int \<Rightarrow> int \<Rightarrow> central_difference" where
  \<comment> \<open>lines 693 to 707\<close>
  "edge_offsets a v_e axis =
     (case v_e of
        (xv_e, yv_e, zv_e) \<Rightarrow>
          let xvs1 = xv_e + int_of_bool (axis = 0);
              yvs1 = yv_e + int_of_bool (axis = 1);
              zvs1 = zv_e + int_of_bool (axis = 2);
              xvs0 = xv_e - int_of_bool (axis = 0);
              yvs0 = yv_e - int_of_bool (axis = 1);
              zvs0 = zv_e - int_of_bool (axis = 2);
              dxbs1 = xvs1 sdiv resolution a;
              dybs1 = xvs1 sdiv resolution a;
              dzbs1 = zvs1 sdiv resolution a;
              dxbs0 = (if xvs0 \<ge> 0 then 0 else - 1);
              dybs0 = (if yvs0 \<ge> 0 then 0 else - 1);
              dzbs0 = (if zvs0 \<ge> 0 then 0 else - 1)
          in \<lparr>xvs = [xvs0, xvs1], yvs = [yvs0, yvs1], zvs = [zvs0, zvs1],
              dxbs = [dxbs0, dxbs1], dybs = [dybs0, dybs1], dzbs = [dzbs0, dzbs1]\<rparr>)"

definition offset_tsdf :: "srcs \<Rightarrow> voxel_buffer \<Rightarrow> int \<Rightarrow> central_difference \<Rightarrow> nat \<Rightarrow> real" where
  \<comment> \<open>the body of \<^verbatim>\<open>for (int k = 0; k < 2; ++k)\<close>: the value stored in \<^verbatim>\<open>tsdfs[k]\<close>\<close>
  "offset_tsdf a block_values workload_block_idx cd k =
     (let nb_idx_k = (dxbs cd ! k + 1) + (dybs cd ! k + 1) * 3 + (dzbs cd ! k + 1) * 9;
          block_mask_k = nb_masks a (nb_idx_k * n_blocks a + workload_block_idx);
          block_idx_k = nb_indices a (nb_idx_k * n_blocks a + workload_block_idx);
          workload_voxel_k =
            CoordToWorkload4 (voxel_block_buffer_indexer a)
              (xvs cd ! k - dxbs cd ! k * resolution a)
              (yvs cd ! k - dybs cd ! k * resolution a)
              (zvs cd ! k - dzbs cd ! k * resolution a) block_idx_k
      in if block_mask_k then tsdf (block_values workload_voxel_k) else 0)"

definition origin_normal :: "srcs \<Rightarrow> voxel_buffer \<Rightarrow> int \<Rightarrow> int \<Rightarrow> real" where
  \<comment> \<open>\<^verbatim>\<open>n_o[axis]\<close>\<close>
  "origin_normal a block_values workload_idx axis =
     (let workload_block_idx = workload_idx sdiv resolution3 a;
          v = WorkloadToCoord3 (voxel_indexer a) (workload_idx smod resolution3 a);
          cd = origin_offsets a v axis
      in (offset_tsdf a block_values workload_block_idx cd 1
            - offset_tsdf a block_values workload_block_idx cd 0) / (2 * voxel_size a))"

definition edge_normal :: "srcs \<Rightarrow> voxel_buffer \<Rightarrow> int \<Rightarrow> int \<Rightarrow> int \<Rightarrow> real" where
  \<comment> \<open>\<^verbatim>\<open>n_e[axis]\<close> for the edge \<open>e\<close> of the voxel\<close>
  "edge_normal a block_values workload_idx e axis =
     (let workload_block_idx = workload_idx sdiv resolution3 a;
          (xv, yv, zv) = WorkloadToCoord3 (voxel_indexer a) (workload_idx smod resolution3 a);
          xv_e = xv + int_of_bool (e = 0);
          yv_e = yv + int_of_bool (e = 1);
          zv_e = zv + int_of_bool (e = 2);
          cd = edge_offsets a (xv_e, yv_e, zv_e) axis
      in (offset_tsdf a block_values workload_block_idx cd 1
            - offset_tsdf a block_values workload_block_idx cd 0) / (2 * voxel_size a))"

section \<open>Decoding the tensor maps, and dispatch\<close>

text \<open>
  Every kernel receives \<^verbatim>\<open>srcs\<close> and \<^verbatim>\<open>dsts\<close>, maps from names to tensors, and opens by
  checking and fetching the tensors it needs. \<^verbatim>\<open>utility::LogError\<close> (declared in
  \<^verbatim>\<open>open3d/utility/Console.h\<close>, not among the sources at hand) raises a fatal error that
  carries the formatted message; \<^verbatim>\<open>std::unordered_map::at\<close> throws
  \<^verbatim>\<open>std::out_of_range\<close> on a missing key. The prologue of a kernel returns the error it
  raises, or \<open>None\<close> when it reaches the launch. Nothing is written before the launch.
\<close>

datatype kernel_error = LogError string | out_of_range

datatype GeneralEWOpCode =
  OpUnproject | OpTSDFTouch | OpTSDFIntegrate | OpTSDFSurfaceExtraction | OpMarchingCubes
  | OpRayCasting | OpDebug

fun check_src_attrs :: "string \<Rightarrow> string list \<Rightarrow> (string \<rightharpoonup> 't) \<Rightarrow> kernel_error option" where
  \<comment> \<open>\<^verbatim>\<open>for (auto& k : src_attrs) if (srcs.count(k) == 0) utility::LogError(..., k)\<close>;
      the first argument is the kernel named between the brackets of the message\<close>
  "check_src_attrs tag [] srcs = None"
| "check_src_attrs tag (k # ks) srcs =
     (if srcs k = None
      then Some (LogError (''['' @ tag @ ''] expected Tensor '' @ k
                             @ '' in srcs, but did not receive''))
      else check_src_attrs tag ks srcs)"

definition at_key :: "(string \<rightharpoonup> 't) \<Rightarrow> string \<Rightarrow> kernel_error option" where
  \<comment> \<open>\<^verbatim>\<open>m.at(k)\<close>\<close>
  "at_key m k = (if m k = None then Some out_of_range else None)"

definition CUDAUnprojectKernel_decode ::
  "(string \<rightharpoonup> 't) \<Rightarrow> (string \<rightharpoonup> 't) \<Rightarrow> kernel_error option" where
  "CUDAUnprojectKernel_decode srcs dsts =
     check_src_attrs ''CUDAUnprojectKernel''
       [''depth'', ''intrinsics'', ''depth_scale'', ''depth_max''] srcs"

definition CUDATSDFTouchKernel_decode ::
  "(string \<rightharpoonup> 't) \<Rightarrow> (string \<rightharpoonup> 't) \<Rightarrow> kernel_error option" where
  "CUDATSDFTouchKernel_decode srcs dsts =
     check_src_attrs ''CUDATSDFTouchKernel'' [''points'', ''voxel_size'', ''resolution''] srcs"

definition CUDATSDFIntegrateKernel_decode ::
  "(string \<rightharpoonup> 't) \<Rightarrow> (string \<rightharpoonup> 't) \<Rightarrow> kernel_error option" where
  "CUDATSDFIntegrateKernel_decode srcs dsts =
     (case check_src_attrs ''CUDATSDFIntegrateKernel''
             [''depth'', ''indices'', ''block_keys'', ''intrinsics'', ''extrinsics'',
              ''resolution'', ''voxel_size'', ''sdf_trunc'', ''depth_scale''] srcs of
        Some e \<Rightarrow> Some e
      | None \<Rightarrow> at_key dsts ''block_values'')"

definition CUDASurfaceExtractionKernel_decode ::
  "(string \<rightharpoonup> 't) \<Rightarrow> (string \<rightharpoonup> 't) \<Rightarrow> kernel_error option" where
  "CUDASurfaceExtractionKernel_decode srcs dsts =
     check_src_attrs ''CPUTSDFIntegrateKernel''
       [''indices'', ''nb_indices'', ''nb_masks'', ''block_keys'', ''block_values'',
        ''voxel_size'', ''resolution''] srcs"

definition CUDAMarchingCubesKernel_decode ::
  "(string \<rightharpoonup> 't) \<Rightarrow> (string \<rightharpoonup> 't) \<Rightarrow> kernel_error option" where
  "CUDAMarchingCubesKernel_decode srcs dsts =
     (case check_src_attrs ''CUDAMarchingCubesKernel''
             [''indices'', ''inv_indices'', ''nb_indices'', ''nb_masks'', ''block_keys'',
              ''block_values'', ''voxel_size'', ''resolution''] srcs of
        Some e \<Rightarrow> Some e
      | None \<Rightarrow>
          if dsts ''mesh_structure'' = None
          then Some (LogError (''[CUDAMarchingCubesKernel] expected Tensor mesh_structure in ''
                                 @ ''srcs, but '' @ ''did not receive''))
          else None)"

fun GeneralEWCUDA_decode ::
  "(string \<rightharpoonup> 't) \<Rightarrow> (string \<rightharpoonup> 't) \<Rightarrow> GeneralEWOpCode \<Rightarrow> kernel_error option" where
  "GeneralEWCUDA_decode srcs dsts OpUnproject = CUDAUnprojectKernel_decode srcs dsts"
| "GeneralEWCUDA_decode srcs dsts OpTSDFTouch = CUDATSDFTouchKernel_decode srcs dsts"
| "GeneralEWCUDA_decode srcs dsts OpTSDFIntegrate = CUDATSDFIntegrateKernel_decode srcs dsts"
| "GeneralEWCUDA_decode srcs dsts OpTSDFSurfaceExtraction =
     CUDASurfaceExtractionKernel_decode srcs dsts"
| "GeneralEWCUDA_decode srcs dsts OpMarchingCubes = CUDAMarchingCubesKernel_decode srcs dsts"
| "GeneralEWCUDA_decode srcs dsts OpRayCasting = None"
| "GeneralEWCUDA_decode srcs dsts OpDebug = None"

definition tensor_map :: "string list \<Rightarrow> (string \<rightharpoonup> unit)" where
  \<comment> \<open>a map holding a tensor under each of the given names\<close>
  "tensor_map ks = map_of (map (\<lambda>k. (k, ())) ks)"

section \<open>The stored channels as IEEE values\<close>

text \<open>
  The block buffer is memory that the kernel does not initialise, so that the two
  channels of a voxel may hold any \<^verbatim>\<open>float\<close>, an infinity or a NaN among them. \<open>float\<close>
  adds these values to the reals, with the arithmetic of IEEE 754 on them (rounding left
  out): a NaN operand gives NaN, as do \<open>0 \<cdot> \<infinity>\<close>, \<open>\<infinity> - \<infinity>\<close>, \<open>0 / 0\<close> and
  \<open>\<infinity> / \<infinity>\<close>. The sign of a zero is not modelled: a non-zero dividend over zero has the
  sign of the dividend, as it has in the source, where the only divisor is the sum
  \<open>weight_sum + 1\<close>. \<open>TSDFIntegrate_workload_ieee\<close> is the closure of Integrate on such
  a buffer; the depth image and the parameters are finite.
\<close>

datatype float = Finite real | PInf | NInf | NaN

fun fmul :: "float \<Rightarrow> float \<Rightarrow> float" where
  "fmul (Finite a) (Finite b) = Finite (a * b)"
| "fmul NaN y = NaN"
| "fmul x NaN = NaN"
| "fmul (Finite a) PInf = (if a = 0 then NaN else if 0 < a then PInf else NInf)"
| "fmul (Finite a) NInf = (if a = 0 then NaN else if 0 < a then NInf else PInf)"
| "fmul PInf (Finite b) = (if b = 0 then NaN else if 0 < b then PInf else NInf)"
| "fmul NInf (Finite b) = (if b = 0 then NaN else if 0 < b then NInf else PInf)"
| "fmul PInf PInf = PInf"
| "fmul PInf NInf = NInf"
| "fmul NInf PInf = NInf"
| "fmul NInf NInf = PInf"

fun fadd :: "float \<Rightarrow> float \<Rightarrow> float" where
  "fadd (Finite a) (Finite b) = Finite (a + b)"
| "fadd NaN y = NaN"
| "fadd x NaN = NaN"
| "fadd PInf NInf = NaN"
| "fadd NInf PInf = NaN"
| "fadd PInf y = PInf"
| "fadd NInf y = NInf"
| "fadd x PInf = PInf"
| "fadd x NInf = NInf"

fun fdiv :: "float \<Rightarrow> float \<Rightarrow> float" where
  "fdiv (Finite a) (Finite b) =
     (if b \<noteq> 0 then Finite (a / b)
      else if a = 0 then NaN else if 0 < a then PInf else NInf)"
| "fdiv NaN y = NaN"
| "fdiv x NaN = NaN"
| "fdiv (Finite a) PInf = Finite 0"
| "fdiv (Finite a) NInf = Finite 0"
| "fdiv PInf (Finite b) = (if 0 \<le> b then PInf else NInf)"
| "fdiv NInf (Finite b) = (if 0 \<le> b then NInf else PInf)"
| "fdiv PInf y = NaN"
| "fdiv NInf y = NaN"

record stored_voxel =
  stored_tsdf :: float
  stored_weight :: float

type_synonym stored_buffer = "int \<Rightarrow> stored_voxel"

definition TSDFIntegrate_workload_ieee :: "srcs \<Rightarrow> int \<Rightarrow> stored_buffer \<Rightarrow> stored_buffer" where
  "TSDFIntegrate_workload_ieee a workload_idx block_values =
     (if \<not> integrate_in_image a workload_idx then block_values
      else
        let depth = integrate_depth_sample a workload_idx;
            zc = integrate_zc a workload_idx;
            sdf = depth - zc
        in if depth \<le> 0 \<or> zc \<le> 0 \<or> sdf < - sdf_trunc a then block_values
           else
             let sdf = (if sdf < sdf_trunc a then sdf else sdf_trunc a);
                 sdf = sdf / sdf_trunc a;
                 workload_voxel = integrate_workload_voxel a workload_idx;
                 tsdf_sum = stored_tsdf (block_values workload_voxel);
                 weight_sum = stored_weight (block_values workload_voxel)
             in block_values
                  (workload_voxel :=
                     \<lparr>stored_tsdf =
                        fdiv (fadd (fmul weight_sum tsdf_sum) (Finite sdf))
                          (fadd weight_sum (Finite 1)),
                      stored_weight = fadd weight_sum (Finite 1)\<rparr>))"

definition store :: "voxel \<Rightarrow> stored_voxel" where
  "store v = \<lparr>stored_tsdf = Finite (tsdf v), stored_weight = Finite (weight v)\<rparr>"

section \<open>Notions used to state the properties\<close>


definition integrate_voxel :: "srcs \<Rightarrow> int \<Rightarrow> voxel \<Rightarrow> voxel" where
  \<comment> \<open>what a workload of Integrate makes of the content of its own voxel\<close>
  "integrate_voxel a workload_idx v =
     (if \<not> integrate_in_image a workload_idx then v
      else
        let depth = integrate_depth_sample a workload_idx;
            zc = integrate_zc a workload_idx;
            sdf = depth - zc
        in if depth \<le> 0 \<or> zc \<le> 0 \<or> sdf < - sdf_trunc a then v
           else \<lparr>tsdf = (weight v * tsdf v + min sdf (sdf_trunc a) / sdf_trunc a) / (weight v + 1),
                 weight = weight v + 1\<rparr>)"

definition axis_crossing :: "srcs \<Rightarrow> voxel_buffer \<Rightarrow> int \<Rightarrow> int \<Rightarrow> bool" where
  \<comment> \<open>the tests under which the body of the loop of SurfaceExtraction emits a point\<close>
  "axis_crossing a block_values workload_idx i =
     (nb_masks a (extraction_nb_offset a workload_idx i) \<and>
      weight (block_values (extraction_workload_voxel_i a workload_idx i)) > 0 \<and>
      tsdf (block_values (extraction_workload_voxel_i a workload_idx i))
        * tsdf (block_values (extraction_workload_voxel a workload_idx)) < 0)"

definition crossing_point :: "srcs \<Rightarrow> voxel_buffer \<Rightarrow> int \<Rightarrow> int \<Rightarrow> real \<times> real \<times> real" where
  \<comment> \<open>the point that it emits\<close>
  "crossing_point a block_values workload_idx i =
     extraction_point a workload_idx i
       (tsdf (block_values (extraction_workload_voxel_i a workload_idx i))
          / (tsdf (block_values (extraction_workload_voxel_i a workload_idx i))
               - tsdf (block_values (extraction_workload_voxel a workload_idx))))"

definition crossings :: "srcs \<Rightarrow> voxel_buffer \<Rightarrow> int \<Rightarrow> nat" where
  \<comment> \<open>the number of zero-crossings that a workload of SurfaceExtraction finds\<close>
  "crossings a block_values workload_idx =
     (if weight (block_values (extraction_workload_voxel a workload_idx)) = 0 then 0
      else length (filter (axis_crossing a block_values workload_idx) [0, 1, 2]))"

definition all_points :: "(real \<times> real \<times> real \<Rightarrow> bool) \<Rightarrow> extraction_state \<Rightarrow> bool" where
  "all_points Q st = (\<forall>row pt. points st row = Some pt \<longrightarrow> Q pt)"

definition rows_filled :: "extraction_state \<Rightarrow> bool" where
  \<comment> \<open>the rows written are those below the counter\<close>
  "rows_filled st = (0 \<le> count st \<and> dom (points st) = {0..<count st})"

subsection \<open>Inputs on which the kernels are run\<close>

definition intrinsic2 :: "nat \<Rightarrow> nat \<Rightarrow> real" where
  "intrinsic2 i j =
     (if i = 0 \<and> j = 0 then 2 else if i = 1 \<and> j = 1 then 3
      else if i = 0 \<and> j = 2 then 1 else if i = 1 \<and> j = 2 then 2
      else if i = 2 \<and> j = 2 then 1 else 0)"

definition extrinsic2 :: "nat \<Rightarrow> nat \<Rightarrow> real" where
  "extrinsic2 i j = (if i = j then 1 else if i = 2 \<and> j = 3 then 1 / 2 else 0)"

definition frame2 :: srcs where
  \<comment> \<open>a frame that tells the stages apart: a \<open>4\<times>6\<close> image whose depth grows with the
      pixel, a depth scale of 2, a principal point off the origin, one selected block,
      the block 1 of a pool of two, with the key \<open>(1, 0, 1)\<close>, voxels of size 1/2\<close>
  "frame2 =
     \<lparr>depth = (\<lambda>i. real_of_int i / 8 + 1 / 2), depth_shape = [4, 6],
      intrinsics = intrinsic2, extrinsics = extrinsic2,
      depth_scale = 2, depth_max = 3, sdf_trunc = 1 / 2, voxel_size = 1 / 2, resolution = 2,
      indices = (\<lambda>k. 1), indices_shape0 = 1,
      block_keys = (\<lambda>j. if j = 3 \<or> j = 5 then 1 else 0),
      block_values_shape = [2, 2, 2, 2],
      nb_indices = (\<lambda>j. 1), nb_masks = (\<lambda>j. j = 13)\<rparr>"

definition seen_block :: voxel_buffer where
  "seen_block = (\<lambda>p. \<lparr>tsdf = 1 / 2, weight = 3\<rparr>)"

definition nan_block :: stored_buffer where
  "nan_block = (\<lambda>p. \<lparr>stored_tsdf = NaN, stored_weight = Finite 0\<rparr>)"

definition stale_block :: stored_buffer where
  "stale_block = (\<lambda>p. \<lparr>stored_tsdf = Finite 7, stored_weight = Finite 0\<rparr>)"

definition pool2 :: voxel_buffer where
  "pool2 =
     (\<lambda>p. if p = 13 then \<lparr>tsdf = 1 / 4, weight = 1\<rparr>
          else if p = 15 then \<lparr>tsdf = - 3 / 4, weight = 2\<rparr>
          else \<lparr>tsdf = 0, weight = 0\<rparr>)"


definition touch_frame :: srcs where
  \<comment> \<open>voxels of size 1/8 in blocks of resolution 8: the block size is 1\<close>
  "touch_frame = frame1\<lparr>voxel_size := 1 / 8, resolution := 8\<rparr>"

definition two_voxels :: voxel_buffer where
  \<comment> \<open>a block observed at two voxels adjacent along x, with tsdf of opposite signs\<close>
  "two_voxels =
     (\<lambda>p. if p = 0 then \<lparr>tsdf = 1 / 2, weight = 1\<rparr>
          else if p = 1 then \<lparr>tsdf = - 1 / 2, weight = 1\<rparr>
          else \<lparr>tsdf = 0, weight = 0\<rparr>)"

definition chain_frame :: srcs where
  \<comment> \<open>19533 selected blocks of resolution 8 in a row along x: block \<open>k\<close> has the key
      \<open>(k, 0, 0)\<close> and its neighbours are the blocks \<open>k - 1\<close> and \<open>k + 1\<close>, so of the 27
      entries of the neighbour table of a block only 12, 13 and 14 are allocated;
      \<open>n \<cdot> 3 = 30002688\<close> exceeds the cap of the buffer\<close>
  "chain_frame =
     frame1\<lparr>resolution := 8, indices := (\<lambda>k. k), indices_shape0 := 19533,
            block_keys := (\<lambda>j. if j smod 3 = 0 then j sdiv 3 else 0),
            block_values_shape := [19533, 8, 8, 8],
            nb_indices :=
              (\<lambda>j. if j < 13 * 19533 then j - 12 * 19533 - 1
                   else if j < 14 * 19533 then j - 13 * 19533
                   else j - 14 * 19533 + 1),
            nb_masks := (\<lambda>j. 12 * 19533 + 1 \<le> j \<and> j < 15 * 19533 - 1)\<rparr>"

definition striped_pool :: voxel_buffer where
  \<comment> \<open>every voxel observed once; the tsdf is 1 where the x coordinate of the voxel is even
      and -1 where it is odd (the workload of a voxel has the parity of its x coordinate)\<close>
  "striped_pool = (\<lambda>p. \<lparr>tsdf = (if even p then 1 else - 1), weight = 1\<rparr>)"

section \<open>Properties of the Integrate kernel\<close>

lemmas frame1_simps =
  integrate_in_image_def integrate_pixel_def integrate_camera_coord_def
  integrate_block_idx_def integrate_voxel_coord_def WorkloadToCoord3_def voxel_indexer_def
  resolution3_def frame1_def RigidTransform_def transform_indexer_def TransformIndexer3_def
  Project_def InBoundary_def image_indexer_def float_of_int64_def int64_of_float_def
  shifted_extrinsic_def unit_intrinsic_def integrate_depth_sample_def integrate_zc_def
  integrate_workload_voxel_def CoordToWorkload4_def CoordToWorkload2_def
  voxel_block_buffer_indexer_def

lemma frame1_in_image: "integrate_in_image frame1 0"
  by (simp add: frame1_simps)

lemma frame1_depth_sample: "integrate_depth_sample frame1 0 = 3 / 2"
  by (simp add: frame1_simps)

lemma frame1_zc: "integrate_zc frame1 0 = 1"
  by (simp add: frame1_simps)

lemma frame1_sdf_trunc: "sdf_trunc frame1 = 1"
  by (simp add: frame1_def)

lemma frame1_voxels:
  "integrate_workload_voxel frame1 0 = 0" "integrate_workload_voxel frame1 1 = 1"
  "integrate_workload_voxel frame1 2 = 2" "integrate_workload_voxel frame1 3 = 3"
  "integrate_workload_voxel frame1 4 = 4" "integrate_workload_voxel frame1 5 = 5"
  "integrate_workload_voxel frame1 6 = 6" "integrate_workload_voxel frame1 7 = 7"
  by (simp_all add: frame1_simps signed_divide_int_def signed_modulo_int_def)

lemma frame1_schedule: "is_schedule (integrate_n frame1) [0, 1, 2, 3, 4, 5, 6, 7]"
proof -
  have "{0..<8::int} = {0, 1, 2, 3, 4, 5, 6, 7}" by auto
  then show ?thesis
    by (simp add: is_schedule_def integrate_n_def resolution3_def frame1_def)
qed

lemma frame1_schedule_rev: "is_schedule (integrate_n frame1) [7, 6, 5, 4, 3, 2, 1, 0]"
proof -
  have "{0..<8::int} = {0, 1, 2, 3, 4, 5, 6, 7}" by auto
  then show ?thesis
    by (auto simp add: is_schedule_def integrate_n_def resolution3_def frame1_def)
qed

lemma frame1_own: "inj_on (integrate_workload_voxel frame1) {0..<integrate_n frame1}"
proof -
  have "{0..<8::int} = {0, 1, 2, 3, 4, 5, 6, 7}" by auto
  then show ?thesis
    by (simp add: integrate_n_def resolution3_def frame1_def [THEN arg_cong, of resolution]
        frame1_def [THEN arg_cong, of indices_shape0] frame1_voxels)
qed

lemmas stage_defs =
  integrate_in_image_def integrate_pixel_def integrate_camera_coord_def
  integrate_block_idx_def integrate_voxel_coord_def integrate_depth_sample_def integrate_zc_def
  integrate_workload_voxel_def CoordToWorkload2_def image_indexer_def float_of_int64_def

text \<open>
  Claim C1. For a workload whose voxel \<open>(xv, yv, zv)\<close> of the selected block has the camera
  coordinate \<open>(xc, yc, zc)\<close> and projects to the pixel \<open>(u, v)\<close> inside the depth image,
  with \<open>depth_sample = depth[v,u] / depth_scale\<close> (the pixel truncated to integers, the
  image row-major) and \<open>sdf = depth_sample - zc\<close>: if \<open>depth_sample \<le> 0\<close> or \<open>zc \<le> 0\<close> or
  \<open>sdf < - sdf_trunc\<close> the block buffer is left unchanged; otherwise the voxel of the
  workload, and no other, is updated to
  \<open>tsdf' = (w\<cdot>tsdf + min sdf sdf_trunc / sdf_trunc) / (w + 1)\<close> and \<open>w' = w + 1\<close>.
\<close>

theorem integrate_update_law:
  assumes "WorkloadToCoord3 (voxel_indexer a) (workload_idx smod resolution3 a) = (xv, yv, zv)"
    and "RigidTransform (transform_indexer a)
           (real_of_int
              (block_keys a (indices a (workload_idx sdiv resolution3 a) * 3 + 0) * resolution a + xv))
           (real_of_int
              (block_keys a (indices a (workload_idx sdiv resolution3 a) * 3 + 1) * resolution a + yv))
           (real_of_int
              (block_keys a (indices a (workload_idx sdiv resolution3 a) * 3 + 2) * resolution a + zv))
         = (xc, yc, zc)"
    and "Project (transform_indexer a) xc yc zc = (u, v)"
    and "InBoundary (image_indexer a) u v"
  shows "TSDFIntegrate_workload a workload_idx block_values =
     (let depth_sample =
            depth a (int64_of_float v * (depth_shape a ! 1) + int64_of_float u) / depth_scale a;
          sdf = depth_sample - zc;
          p = CoordToWorkload4 (voxel_block_buffer_indexer a) xv yv zv
                (indices a (workload_idx sdiv resolution3 a));
          w = weight (block_values p)
      in if depth_sample \<le> 0 \<or> zc \<le> 0 \<or> sdf < - sdf_trunc a then block_values
         else block_values
                (p := \<lparr>tsdf = (w * tsdf (block_values p) + min sdf (sdf_trunc a) / sdf_trunc a)
                               / (w + 1),
                       weight = w + 1\<rparr>))"
  using assms
  by (simp add: TSDFIntegrate_workload_def stage_defs Let_def min_def)

lemma frame2_coord: "WorkloadToCoord3 (voxel_indexer frame2) (3 smod resolution3 frame2) = (1, 1, 0)"
  by (simp add: WorkloadToCoord3_def voxel_indexer_def resolution3_def frame2_def
      signed_divide_int_def signed_modulo_int_def)

lemma frame2_camera:
  "RigidTransform (transform_indexer frame2)
     (real_of_int (block_keys frame2 (indices frame2 (3 sdiv resolution3 frame2) * 3 + 0) * resolution frame2 + 1))
     (real_of_int (block_keys frame2 (indices frame2 (3 sdiv resolution3 frame2) * 3 + 1) * resolution frame2 + 1))
     (real_of_int (block_keys frame2 (indices frame2 (3 sdiv resolution3 frame2) * 3 + 2) * resolution frame2 + 0))
   = (3 / 2, 1 / 2, 3 / 2)"
  by (simp add: RigidTransform_def transform_indexer_def TransformIndexer3_def resolution3_def
      frame2_def extrinsic2_def intrinsic2_def signed_divide_int_def)

lemma frame2_pixel: "Project (transform_indexer frame2) (3 / 2) (1 / 2) (3 / 2) = (3, 3)"
  by (simp add: Project_def transform_indexer_def TransformIndexer3_def frame2_def intrinsic2_def)

lemma frame2_in_image: "InBoundary (image_indexer frame2) 3 3"
  by (simp add: InBoundary_def image_indexer_def frame2_def int64_of_float_def)

theorem integrate_update_law_witness:
  "WorkloadToCoord3 (voxel_indexer frame2) (3 smod resolution3 frame2) = (1, 1, 0) \<and>
   Project (transform_indexer frame2) (3 / 2) (1 / 2) (3 / 2) = (3, 3) \<and>
   InBoundary (image_indexer frame2) 3 3 \<and>
   depth frame2 21 / depth_scale frame2 = 25 / 16 \<and>
   TSDFIntegrate_workload frame2 3 seen_block
     = seen_block (11 := \<lparr>tsdf = 13 / 32, weight = 4\<rparr>)"
proof -
  have d: "depth frame2 21 / depth_scale frame2 = 25 / 16" by (simp add: frame2_def)
  have p: "CoordToWorkload4 (voxel_block_buffer_indexer frame2) 1 1 0
             (indices frame2 (3 sdiv resolution3 frame2)) = 11"
    by (simp add: CoordToWorkload4_def voxel_block_buffer_indexer_def frame2_def)
  have i: "int64_of_float 3 * (depth_shape frame2 ! 1) + int64_of_float 3 = 21"
    by (simp add: int64_of_float_def frame2_def)
  have t: "sdf_trunc frame2 = 1 / 2" by (simp add: frame2_def)
  from integrate_update_law [OF frame2_coord frame2_camera frame2_pixel frame2_in_image, of seen_block]
  have "TSDFIntegrate_workload frame2 3 seen_block = seen_block (11 := \<lparr>tsdf = 13 / 32, weight = 4\<rparr>)"
    by (simp add: Let_def CoordToWorkload4_def voxel_block_buffer_indexer_def frame2_def
        int64_of_float_def seen_block_def signed_divide_int_def resolution3_def)
  with frame2_coord frame2_pixel frame2_in_image d show ?thesis by simp
qed

subsection \<open>The workload as an update of its own voxel\<close>

lemma integrate_workload_as_voxel:
  "TSDFIntegrate_workload a w bv =
     bv (integrate_workload_voxel a w := integrate_voxel a w (bv (integrate_workload_voxel a w)))"
  by (simp add: TSDFIntegrate_workload_def integrate_voxel_def Let_def min_def)

lemma integrate_workload_other:
  "integrate_workload_voxel a w \<noteq> p \<Longrightarrow> TSDFIntegrate_workload a w bv p = bv p"
  by (simp add: integrate_workload_as_voxel)

lemma integrate_workload_owner:
  "TSDFIntegrate_workload a w bv (integrate_workload_voxel a w) =
     integrate_voxel a w (bv (integrate_workload_voxel a w))"
  by (simp add: integrate_workload_as_voxel)

lemma fold_integrate_other:
  assumes "\<forall>w \<in> set sched. integrate_workload_voxel a w \<noteq> p"
  shows "fold (TSDFIntegrate_workload a) sched bv p = bv p"
  using assms
  by (induction sched arbitrary: bv) (simp_all add: integrate_workload_other)

lemma fold_integrate_owner:
  assumes "distinct sched" and "inj_on (integrate_workload_voxel a) (set sched)"
    and "w \<in> set sched"
  shows "fold (TSDFIntegrate_workload a) sched bv (integrate_workload_voxel a w) =
     integrate_voxel a w (bv (integrate_workload_voxel a w))"
  using assms
proof (induction sched arbitrary: bv)
  case Nil
  then show ?case by simp
next
  case (Cons x xs)
  show ?case
  proof (cases "x = w")
    case True
    with Cons.prems have "\<forall>y \<in> set xs. integrate_workload_voxel a y \<noteq> integrate_workload_voxel a w"
      by (auto simp: inj_on_def)
    from fold_integrate_other [OF this] True show ?thesis
      by (simp add: integrate_workload_owner)
  next
    case False
    with Cons.prems have w: "w \<in> set xs" by simp
    from Cons.prems False have ne: "integrate_workload_voxel a x \<noteq> integrate_workload_voxel a w"
      by (auto simp: inj_on_def)
    from Cons.prems have "distinct xs" "inj_on (integrate_workload_voxel a) (set xs)"
      by (simp_all add: inj_on_def)
    from Cons.IH [OF this w] ne show ?thesis
      by (simp add: integrate_workload_other)
  qed
qed

lemma frame1_voxel0: "integrate_voxel frame1 0 v =
   \<lparr>tsdf = (weight v * tsdf v + 1 / 2) / (weight v + 1), weight = weight v + 1\<rparr>"
  by (simp add: integrate_voxel_def frame1_simps)

lemma frame1_run0:
  "CUDATSDFIntegrateKernel frame1 [0, 1, 2, 3, 4, 5, 6, 7] fresh_block 0
     = \<lparr>tsdf = 1 / 2, weight = 1\<rparr>"
  by (simp add: CUDATSDFIntegrateKernel_def LaunchGeneralKernel_def integrate_workload_as_voxel
     frame1_voxels frame1_voxel0 fresh_block_def)

subsection \<open>The invariant of a voxel\<close>






subsection \<open>The first observation of a voxel\<close>

text \<open>
  On a buffer whose channels are finite, the closure on IEEE values does what the closure
  on reals does, unless the weight of the voxel is -1.
\<close>

lemma ieee_refines:
  assumes "weight (bv (integrate_workload_voxel a w)) + 1 \<noteq> 0"
  shows "TSDFIntegrate_workload_ieee a w (\<lambda>p. store (bv p)) = (\<lambda>p. store (TSDFIntegrate_workload a w bv p))"
  using assms
  by (auto simp: TSDFIntegrate_workload_ieee_def TSDFIntegrate_workload_def store_def Let_def
      fun_eq_iff)

text \<open>
  Claim C10 says that for a voxel whose stored weight is 0 an update that is not
  discarded sets the tsdf to the clamped normalised sdf of the observation, whatever
  value the tsdf channel held. The update computes \<open>weight_sum * tsdf_sum\<close> before it adds
  the sdf: where the channel holds a NaN (or an infinity) the product with the weight 0
  is NaN, and the kernel stores NaN, not the sdf \<open>1/8\<close> of the observation.
\<close>

theorem integrate_stored_nan:
  "WorkloadToCoord3 (voxel_indexer frame2) (3 smod resolution3 frame2) = (1, 1, 0) \<and>
   Project (transform_indexer frame2) (3 / 2) (1 / 2) (3 / 2) = (3, 3) \<and>
   InBoundary (image_indexer frame2) 3 3 \<and>
   depth frame2 21 / depth_scale frame2 - 3 / 2 = 1 / 16 \<and>
   nan_block 11 = \<lparr>stored_tsdf = NaN, stored_weight = Finite 0\<rparr> \<and>
   TSDFIntegrate_workload_ieee frame2 3 nan_block 11
     = \<lparr>stored_tsdf = NaN, stored_weight = Finite 1\<rparr>"
proof -
  have "TSDFIntegrate_workload_ieee frame2 3 nan_block 11
     = \<lparr>stored_tsdf = NaN, stored_weight = Finite 1\<rparr>"
    by (simp add: TSDFIntegrate_workload_ieee_def stage_defs Let_def frame2_coord
        WorkloadToCoord3_def voxel_indexer_def resolution3_def RigidTransform_def
        transform_indexer_def TransformIndexer3_def Project_def InBoundary_def
        CoordToWorkload4_def voxel_block_buffer_indexer_def frame2_def extrinsic2_def
        intrinsic2_def int64_of_float_def nan_block_def signed_divide_int_def
        signed_modulo_int_def)
  moreover have "depth frame2 21 / depth_scale frame2 - 3 / 2 = 1 / 16" by (simp add: frame2_def)
  ultimately show ?thesis
    using frame2_coord frame2_pixel frame2_in_image by (simp add: nan_block_def)
qed

text \<open>
  Claim C10, amended. For a voxel whose stored weight is 0 and whose tsdf channel holds
  a finite value \<open>t\<close>, an update of Integrate that is not discarded sets its tsdf to the
  clamped normalised sdf of the observation, \<open>min sdf sdf_trunc / sdf_trunc\<close>, whatever
  \<open>t\<close> is, and sets its weight to 1; no other voxel changes.
\<close>

theorem integrate_unobserved_voxel:
  assumes "WorkloadToCoord3 (voxel_indexer a) (workload_idx smod resolution3 a) = (xv, yv, zv)"
    and "RigidTransform (transform_indexer a)
           (real_of_int
              (block_keys a (indices a (workload_idx sdiv resolution3 a) * 3 + 0) * resolution a + xv))
           (real_of_int
              (block_keys a (indices a (workload_idx sdiv resolution3 a) * 3 + 1) * resolution a + yv))
           (real_of_int
              (block_keys a (indices a (workload_idx sdiv resolution3 a) * 3 + 2) * resolution a + zv))
         = (xc, yc, zc)"
    and "Project (transform_indexer a) xc yc zc = (u, v)"
    and "InBoundary (image_indexer a) u v"
    and "depth a (int64_of_float v * (depth_shape a ! 1) + int64_of_float u) / depth_scale a
           = depth_sample"
    and "\<not> (depth_sample \<le> 0 \<or> zc \<le> 0 \<or> depth_sample - zc < - sdf_trunc a)"
    and "CoordToWorkload4 (voxel_block_buffer_indexer a) xv yv zv
           (indices a (workload_idx sdiv resolution3 a)) = p"
    and "block_values p = \<lparr>stored_tsdf = Finite t, stored_weight = Finite 0\<rparr>"
  shows "TSDFIntegrate_workload_ieee a workload_idx block_values =
     block_values
       (p := \<lparr>stored_tsdf = Finite (min (depth_sample - zc) (sdf_trunc a) / sdf_trunc a),
              stored_weight = Finite 1\<rparr>)"
  using assms
  by (auto simp: TSDFIntegrate_workload_ieee_def stage_defs Let_def min_def)

theorem integrate_unobserved_voxel_witness:
  "WorkloadToCoord3 (voxel_indexer frame2) (3 smod resolution3 frame2) = (1, 1, 0) \<and>
   Project (transform_indexer frame2) (3 / 2) (1 / 2) (3 / 2) = (3, 3) \<and>
   InBoundary (image_indexer frame2) 3 3 \<and>
   depth frame2 (int64_of_float 3 * (depth_shape frame2 ! 1) + int64_of_float 3)
     / depth_scale frame2 = 25 / 16 \<and>
   CoordToWorkload4 (voxel_block_buffer_indexer frame2) 1 1 0
     (indices frame2 (3 sdiv resolution3 frame2)) = 11 \<and>
   stale_block 11 = \<lparr>stored_tsdf = Finite 7, stored_weight = Finite 0\<rparr> \<and>
   TSDFIntegrate_workload_ieee frame2 3 stale_block
     = stale_block (11 := \<lparr>stored_tsdf = Finite (1 / 8), stored_weight = Finite 1\<rparr>)"
proof -
  have d: "depth frame2 (int64_of_float 3 * (depth_shape frame2 ! 1) + int64_of_float 3)
     / depth_scale frame2 = 25 / 16"
    by (simp add: frame2_def int64_of_float_def)
  have n: "\<not> ((25 / 16 :: real) \<le> 0 \<or> (3 / 2 :: real) \<le> 0 \<or> 25 / 16 - 3 / 2 < - sdf_trunc frame2)"
    by (simp add: frame2_def)
  have p: "CoordToWorkload4 (voxel_block_buffer_indexer frame2) 1 1 0
     (indices frame2 (3 sdiv resolution3 frame2)) = 11"
    by (simp add: CoordToWorkload4_def voxel_block_buffer_indexer_def frame2_def)
  have b: "stale_block 11 = \<lparr>stored_tsdf = Finite 7, stored_weight = Finite 0\<rparr>"
    by (simp add: stale_block_def)
  have t: "min (25 / 16 - 3 / 2) (sdf_trunc frame2) / sdf_trunc frame2 = 1 / 8"
    by (simp add: frame2_def)
  from integrate_unobserved_voxel
    [where block_values = stale_block,
     OF frame2_coord frame2_camera frame2_pixel frame2_in_image d n p b]
  have "TSDFIntegrate_workload_ieee frame2 3 stale_block
     = stale_block (11 := \<lparr>stored_tsdf = Finite (1 / 8), stored_weight = Finite 1\<rparr>)"
    by (simp only: t)
  with frame2_coord frame2_pixel frame2_in_image d p b show ?thesis by blast
qed

subsection \<open>Workloads and their voxels\<close>

text \<open>
  With the indexers as the specification describes them, a workload \<open>w\<close> of a launch
  addresses the voxel \<open>indices[w / R^3] \<cdot> R^3 + w % R^3\<close> of the block buffer: two
  workloads address the same voxel only through a block selected twice.
\<close>

lemma sdiv_nonneg: "0 \<le> a \<Longrightarrow> 0 < b \<Longrightarrow> a sdiv b = a div (b :: int)"
  by (cases "a = 0") (simp_all add: signed_divide_int_def)

lemma smod_nonneg: "0 \<le> a \<Longrightarrow> 0 < b \<Longrightarrow> a smod b = a mod (b :: int)"
  by (cases "a = 0") (simp_all add: signed_modulo_int_def)

lemma voxel_coord_nonneg:
  assumes "0 < R" and "0 \<le> v"
  shows "WorkloadToCoord3 \<lparr>shape = [R, R, R]\<rparr> v = (v mod R, v div R mod R, v div R div R)"
proof -
  from assms have "0 \<le> v div R" by (simp add: pos_imp_zdiv_nonneg_iff)
  with assms show ?thesis
    by (simp add: WorkloadToCoord3_def Let_def sdiv_nonneg smod_nonneg)
qed

lemma coord_workload_inverse:
  fixes R v b :: int
  shows "((b * R + v div R div R) * R + v div R mod R) * R + v mod R = b * (R * R * R) + v"
proof -
  have "((b * R + v div R div R) * R + v div R mod R) * R + v mod R
      = b * (R * R * R) + ((v div R div R) * R + v div R mod R) * R + v mod R"
    by (simp add: algebra_simps)
  also have "(v div R div R) * R + v div R mod R = v div R" by simp
  also have "b * (R * R * R) + v div R * R + v mod R = b * (R * R * R) + v" by simp
  finally show ?thesis .
qed

lemma div_less_of_less_mult:
  fixes w K R :: int
  assumes "0 < R" and "w < K * R"
  shows "w div R < K"
proof -
  from assms(1) have "0 \<le> w mod R" by simp
  with div_mult_mod_eq [of w R] have "w div R * R \<le> w" by linarith
  with assms(2) have "w div R * R < K * R" by simp
  with assms(1) show ?thesis by (simp only: mult_less_cancel_right_pos)
qed

lemma integrate_workload_voxel_eq:
  assumes "0 < resolution a" and "0 \<le> w"
    and "block_values_shape a = [B, resolution a, resolution a, resolution a]"
  shows "integrate_workload_voxel a w
     = indices a (w div resolution3 a) * resolution3 a + w mod resolution3 a"
proof -
  from assms(1) have r: "0 < resolution3 a" by (simp add: resolution3_def)
  with assms(2) have "0 \<le> w mod resolution3 a" by simp
  with assms r show ?thesis
    by (simp add: integrate_workload_voxel_def integrate_voxel_coord_def
        integrate_block_idx_def voxel_indexer_def voxel_block_buffer_indexer_def
        voxel_coord_nonneg sdiv_nonneg smod_nonneg CoordToWorkload4_def
        coord_workload_inverse resolution3_def [symmetric])
qed

lemma integrate_workloads_own_voxels:
  assumes "0 < resolution a"
    and "block_values_shape a = [B, resolution a, resolution a, resolution a]"
    and "inj_on (indices a) {0..<indices_shape0 a}"
  shows "inj_on (integrate_workload_voxel a) {0..<integrate_n a}"
proof (rule inj_onI)
  fix w1 w2
  assume w1: "w1 \<in> {0..<integrate_n a}" and w2: "w2 \<in> {0..<integrate_n a}"
    and e: "integrate_workload_voxel a w1 = integrate_workload_voxel a w2"
  let ?R = "resolution3 a"
  from assms(1) have r: "0 < ?R" by (simp add: resolution3_def)
  from w1 w2 have n1: "0 \<le> w1" "w1 < indices_shape0 a * ?R" and n2: "0 \<le> w2" "w2 < indices_shape0 a * ?R"
    by (simp_all add: integrate_n_def)
  from e n1 n2 assms have eq: "indices a (w1 div ?R) * ?R + w1 mod ?R = indices a (w2 div ?R) * ?R + w2 mod ?R"
    by (simp add: integrate_workload_voxel_eq)
  from r have m: "0 \<le> w1 mod ?R" "w1 mod ?R < ?R" "0 \<le> w2 mod ?R" "w2 mod ?R < ?R"
    by simp_all
  from arg_cong [OF eq, of "\<lambda>x. x div ?R"] r m
  have i: "indices a (w1 div ?R) = indices a (w2 div ?R)" by simp
  with eq have v: "w1 mod ?R = w2 mod ?R" by simp
  from n1 n2 r have "w1 div ?R \<in> {0..<indices_shape0 a}" "w2 div ?R \<in> {0..<indices_shape0 a}"
    by (simp_all add: pos_imp_zdiv_nonneg_iff div_less_of_less_mult)
  with i assms(3) have "w1 div ?R = w2 div ?R" by (simp add: inj_on_def)
  with v show "w1 = w2" by (metis div_mult_mod_eq)
qed

subsection \<open>The same frame, twice\<close>

lemma integrate_voxel_twice:
  assumes "weight v = 0"
  shows "tsdf (integrate_voxel a w (integrate_voxel a w v)) = tsdf (integrate_voxel a w v) \<and>
    (weight (integrate_voxel a w v) = 1 \<longrightarrow> weight (integrate_voxel a w (integrate_voxel a w v)) = 2)"
  using assms by (simp add: integrate_voxel_def Let_def)

text \<open>
  Claim C9. Integrating the same depth frame twice into a fresh block (all weights
  initially 0) yields, at every voxel \<open>p\<close>, the tsdf of a single integration, and the
  weight 2 wherever a single integration yields the weight 1. The two launches may run
  their workloads in different orders; each workload owns its voxel, as the kernel
  requires of \<open>indices\<close> for its unsynchronised read-modify-write.
\<close>

theorem integrate_same_frame_twice:
  assumes fresh: "\<forall>p. weight (block_values p) = 0"
    and s1: "is_schedule (integrate_n a) sched1"
    and s2: "is_schedule (integrate_n a) sched2"
    and own: "inj_on (integrate_workload_voxel a) {0..<integrate_n a}"
  shows "tsdf (CUDATSDFIntegrateKernel a sched2 (CUDATSDFIntegrateKernel a sched1 block_values) p)
           = tsdf (CUDATSDFIntegrateKernel a sched1 block_values p) \<and>
         (weight (CUDATSDFIntegrateKernel a sched1 block_values p) = 1 \<longrightarrow>
          weight (CUDATSDFIntegrateKernel a sched2 (CUDATSDFIntegrateKernel a sched1 block_values) p)
            = 2)"
proof (cases "\<exists>w \<in> {0..<integrate_n a}. integrate_workload_voxel a w = p")
  case True
  then obtain w where w: "w \<in> {0..<integrate_n a}" and p: "p = integrate_workload_voxel a w"
    by blast
  from s1 s2 w own have
    "distinct sched1" "inj_on (integrate_workload_voxel a) (set sched1)" "w \<in> set sched1"
    "distinct sched2" "inj_on (integrate_workload_voxel a) (set sched2)" "w \<in> set sched2"
    by (simp_all add: is_schedule_def)
  then have "CUDATSDFIntegrateKernel a sched1 block_values p = integrate_voxel a w (block_values p)"
    and "CUDATSDFIntegrateKernel a sched2 (CUDATSDFIntegrateKernel a sched1 block_values) p
         = integrate_voxel a w (CUDATSDFIntegrateKernel a sched1 block_values p)"
    unfolding CUDATSDFIntegrateKernel_def LaunchGeneralKernel_def p
    by (simp_all add: fold_integrate_owner)
  with fresh integrate_voxel_twice [of "block_values p" a w] show ?thesis by simp
next
  case False
  with s1 s2 have "\<forall>w \<in> set sched1. integrate_workload_voxel a w \<noteq> p"
    "\<forall>w \<in> set sched2. integrate_workload_voxel a w \<noteq> p"
    by (simp_all add: is_schedule_def)
  then have "CUDATSDFIntegrateKernel a sched1 block_values p = block_values p"
    and "CUDATSDFIntegrateKernel a sched2 (CUDATSDFIntegrateKernel a sched1 block_values) p
         = CUDATSDFIntegrateKernel a sched1 block_values p"
    unfolding CUDATSDFIntegrateKernel_def LaunchGeneralKernel_def
    by (simp_all add: fold_integrate_other)
  with fresh show ?thesis by simp
qed

theorem integrate_same_frame_twice_witness:
  "(\<forall>p. weight (fresh_block p) = 0) \<and>
   is_schedule (integrate_n frame1) [0, 1, 2, 3, 4, 5, 6, 7] \<and>
   is_schedule (integrate_n frame1) [7, 6, 5, 4, 3, 2, 1, 0] \<and>
   inj_on (integrate_workload_voxel frame1) {0..<integrate_n frame1} \<and>
   CUDATSDFIntegrateKernel frame1 [0, 1, 2, 3, 4, 5, 6, 7] fresh_block 0
     = \<lparr>tsdf = 1 / 2, weight = 1\<rparr> \<and>
   tsdf (CUDATSDFIntegrateKernel frame1 [7, 6, 5, 4, 3, 2, 1, 0]
          (CUDATSDFIntegrateKernel frame1 [0, 1, 2, 3, 4, 5, 6, 7] fresh_block) 0) = 1 / 2 \<and>
   weight (CUDATSDFIntegrateKernel frame1 [7, 6, 5, 4, 3, 2, 1, 0]
          (CUDATSDFIntegrateKernel frame1 [0, 1, 2, 3, 4, 5, 6, 7] fresh_block) 0) = 2"
proof -
  have f: "\<forall>p. weight (fresh_block p) = 0" by (simp add: fresh_block_def)
  from integrate_same_frame_twice [OF f frame1_schedule frame1_schedule_rev frame1_own, of 0]
    f frame1_schedule frame1_schedule_rev frame1_own
  show ?thesis by (simp add: frame1_run0)
qed

section \<open>Properties of the Unproject kernel\<close>




section \<open>Properties of the Touch kernel\<close>

lemma ceiling_minus_half: "\<lceil>- (1 / 2 :: real)\<rceil> = 0"
  by (rule ceiling_unique) simp_all

lemma floor_minus_half: "\<lfloor>- (1 / 2 :: real)\<rfloor> = - 1"
  by (rule floor_unique) simp_all

text \<open>
  Claim C4 says that the block key of every point \<open>p\<close>, points with negative coordinates
  included, is \<open>floor (p / block_size)\<close> cast to i64. The kernel divides and converts to
  Int64, and the conversion discards the fractional part: with a block size of 1 the
  point \<open>(-1/2, 1/2, 1/2)\<close> receives the key \<open>(0, 0, 0)\<close>, where the floor is \<open>(-1, 0, 0)\<close>.
\<close>

theorem touch_truncates_towards_zero:
  "touch_block_size touch_frame = 1 \<and>
   touch_block_coordi touch_frame [(- 1 / 2, 1 / 2, 1 / 2)] = [(0, 0, 0)] \<and>
   (\<lfloor>(- 1 / 2 :: real) / touch_block_size touch_frame\<rfloor>,
    \<lfloor>(1 / 2 :: real) / touch_block_size touch_frame\<rfloor>,
    \<lfloor>(1 / 2 :: real) / touch_block_size touch_frame\<rfloor>) = (- 1, 0, 0)"
  by (simp add: touch_block_coordi_def touch_block_size_def touch_frame_def frame1_def
      To_Int64_def int64_of_float_def float_of_int64_def ceiling_minus_half floor_minus_half)

text \<open>Where the quotient is not negative, the conversion is the floor.\<close>

lemma touch_floor_nonneg:
  assumes "0 \<le> x / touch_block_size a"
  shows "To_Int64 (x / touch_block_size a) = \<lfloor>x / touch_block_size a\<rfloor>"
  using assms by (simp add: To_Int64_def int64_of_float_def)

section \<open>Properties of the SurfaceExtraction kernel\<close>

lemma axis_step:
  "SurfaceExtraction_axis a bv w i st =
     (if axis_crossing a bv w i
      then \<lparr>count = count st + 1, points = (points st)(count st \<mapsto> crossing_point a bv w i)\<rparr>
      else st)"
  by (simp add: SurfaceExtraction_axis_def axis_crossing_def crossing_point_def Let_def)

lemma axis_all_points:
  assumes "all_points Q st" and "axis_crossing a bv w i \<Longrightarrow> Q (crossing_point a bv w i)"
  shows "all_points Q (SurfaceExtraction_axis a bv w i st)"
  using assms by (auto simp: axis_step all_points_def)

lemma workload_all_points:
  assumes "all_points Q st"
    and "\<And>i. i \<in> {0, 1, 2} \<Longrightarrow> weight (bv (extraction_workload_voxel a w)) \<noteq> 0 \<Longrightarrow>
           axis_crossing a bv w i \<Longrightarrow> Q (crossing_point a bv w i)"
  shows "all_points Q (SurfaceExtraction_workload a bv w st)"
proof (cases "weight (bv (extraction_workload_voxel a w)) = 0")
  case True
  with assms(1) show ?thesis by (simp add: SurfaceExtraction_workload_def)
next
  case False
  with assms(2) have q: "\<And>i. i \<in> {0, 1, 2} \<Longrightarrow> axis_crossing a bv w i \<Longrightarrow> Q (crossing_point a bv w i)"
    by blast
  have s0: "all_points Q (SurfaceExtraction_axis a bv w 0 st)"
    by (rule axis_all_points [OF assms(1)]) (rule q, simp)
  have s1: "all_points Q (SurfaceExtraction_axis a bv w 1 (SurfaceExtraction_axis a bv w 0 st))"
    by (rule axis_all_points [OF s0]) (rule q, simp)
  have "all_points Q (SurfaceExtraction_axis a bv w 2
      (SurfaceExtraction_axis a bv w 1 (SurfaceExtraction_axis a bv w 0 st)))"
    by (rule axis_all_points [OF s1]) (rule q, simp)
  with False show ?thesis by (simp add: SurfaceExtraction_workload_def)
qed

lemma launch_all_points:
  assumes "all_points Q st"
    and "\<And>w i. w \<in> set sched \<Longrightarrow> i \<in> {0, 1, 2} \<Longrightarrow>
           weight (bv (extraction_workload_voxel a w)) \<noteq> 0 \<Longrightarrow>
           axis_crossing a bv w i \<Longrightarrow> Q (crossing_point a bv w i)"
  shows "all_points Q (fold (SurfaceExtraction_workload a bv) sched st)"
  using assms
proof (induction sched arbitrary: st)
  case Nil
  then show ?case by simp
next
  case (Cons w sched)
  have "all_points Q (SurfaceExtraction_workload a bv w st)"
    by (rule workload_all_points [OF Cons.prems(1)]) (rule Cons.prems(2), simp_all)
  then have "all_points Q (fold (SurfaceExtraction_workload a bv) sched
      (SurfaceExtraction_workload a bv w st))"
    by (rule Cons.IH) (rule Cons.prems(2), simp_all)
  then show ?case by simp
qed

lemma opposite_signs_ratio:
  fixes ti t0 :: real
  assumes "ti * t0 < 0"
  shows "(t0 < 0 \<and> 0 < ti \<or> 0 < t0 \<and> ti < 0) \<and> 0 \<le> ti / (ti - t0) \<and> ti / (ti - t0) \<le> 1"
proof -
  from assms have s: "t0 < 0 \<and> 0 < ti \<or> 0 < t0 \<and> ti < 0"
    by (auto simp: mult_less_0_iff)
  then show ?thesis
  proof
    assume "t0 < 0 \<and> 0 < ti"
    then have "0 < ti - t0" "0 \<le> ti" "ti \<le> ti - t0" by simp_all
    with s show ?thesis by (simp add: pos_le_divide_eq pos_divide_le_eq)
  next
    assume "0 < t0 \<and> ti < 0"
    then have "ti - t0 < 0" "ti \<le> 0" "ti - t0 \<le> ti" by simp_all
    with s show ?thesis by (simp add: neg_le_divide_eq neg_divide_le_eq)
  qed
qed

lemma extraction_points_by_stage:
  assumes "\<forall>p. 0 \<le> weight (block_values p)"
    and "points (CUDASurfaceExtractionKernel a block_values sched) row = Some pt"
  shows "\<exists>workload_idx \<in> set sched. \<exists>i \<in> {0, 1, 2}.
     (let voxel_o = block_values (extraction_workload_voxel a workload_idx);
          voxel_i = block_values (extraction_workload_voxel_i a workload_idx i);
          ratio = tsdf voxel_i / (tsdf voxel_i - tsdf voxel_o)
      in nb_masks a (extraction_nb_offset a workload_idx i) \<and>
         0 < weight voxel_o \<and> 0 < weight voxel_i \<and>
         (tsdf voxel_o < 0 \<and> 0 < tsdf voxel_i \<or> 0 < tsdf voxel_o \<and> tsdf voxel_i < 0) \<and>
         0 \<le> ratio \<and> ratio \<le> 1 \<and>
         (case extraction_world_coord a workload_idx of
            (x, y, z) \<Rightarrow>
              pt = (voxel_size a * (real_of_int x + ratio * (if i = 0 then 1 else 0)),
                    voxel_size a * (real_of_int y + ratio * (if i = 1 then 1 else 0)),
                    voxel_size a * (real_of_int z + ratio * (if i = 2 then 1 else 0)))))"
proof -
  let ?Q = "\<lambda>pt. \<exists>w \<in> set sched. \<exists>i \<in> {0, 1, 2}.
      weight (block_values (extraction_workload_voxel a w)) \<noteq> 0 \<and>
      axis_crossing a block_values w i \<and> pt = crossing_point a block_values w i"
  have "all_points ?Q extraction_start"
    by (simp add: all_points_def extraction_start_def)
  then have "all_points ?Q (fold (SurfaceExtraction_workload a block_values) sched extraction_start)"
    by (rule launch_all_points) blast
  moreover from assms(2)
  have "points (fold (SurfaceExtraction_workload a block_values) sched extraction_start) row = Some pt"
    by (simp add: CUDASurfaceExtractionKernel_def LaunchGeneralKernel_def)
  ultimately have "?Q pt"
    unfolding all_points_def by blast
  then obtain w i where w: "w \<in> set sched" and i: "i \<in> {0, 1, 2}"
    and o: "weight (block_values (extraction_workload_voxel a w)) \<noteq> 0"
    and c: "axis_crossing a block_values w i" and pt: "pt = crossing_point a block_values w i"
    by blast
  from o assms(1) have wo: "0 < weight (block_values (extraction_workload_voxel a w))"
    by (simp add: less_le)
  from c have "tsdf (block_values (extraction_workload_voxel_i a w i))
        * tsdf (block_values (extraction_workload_voxel a w)) < 0"
    by (simp add: axis_crossing_def)
  note r = opposite_signs_ratio [OF this]
  obtain x y z where xyz: "extraction_world_coord a w = (x, y, z)"
    by (cases "extraction_world_coord a w")
  show ?thesis
  proof (rule bexI [OF _ w], rule bexI [OF _ i])
    from wo c pt r xyz
    show "let voxel_o = block_values (extraction_workload_voxel a w);
          voxel_i = block_values (extraction_workload_voxel_i a w i);
          ratio = tsdf voxel_i / (tsdf voxel_i - tsdf voxel_o)
      in nb_masks a (extraction_nb_offset a w i) \<and>
         0 < weight voxel_o \<and> 0 < weight voxel_i \<and>
         (tsdf voxel_o < 0 \<and> 0 < tsdf voxel_i \<or> 0 < tsdf voxel_o \<and> tsdf voxel_i < 0) \<and>
         0 \<le> ratio \<and> ratio \<le> 1 \<and>
         (case extraction_world_coord a w of
            (x, y, z) \<Rightarrow>
              pt = (voxel_size a * (real_of_int x + ratio * (if i = 0 then 1 else 0)),
                    voxel_size a * (real_of_int y + ratio * (if i = 1 then 1 else 0)),
                    voxel_size a * (real_of_int z + ratio * (if i = 2 then 1 else 0))))"
      by (simp add: Let_def axis_crossing_def crossing_point_def extraction_point_def
          float_of_int64_def int_of_bool_def)
  qed
qed

lemmas extraction_simps =
  extraction_voxel_coord_def extraction_workload_voxel_def extraction_world_coord_def
  extraction_nb_offset_def extraction_workload_voxel_i_def extraction_point_def
  WorkloadToCoord3_def CoordToWorkload4_def voxel_indexer_def voxel_block_buffer_indexer_def
  resolution3_def n_blocks_def int_of_bool_def float_of_int64_def
  signed_divide_int_def signed_modulo_int_def

lemma frame1_crossings:
  "crossings frame1 two_voxels 0 = 1" "crossings frame1 two_voxels 1 = 0"
  "crossings frame1 two_voxels 2 = 0" "crossings frame1 two_voxels 3 = 0"
  "crossings frame1 two_voxels 4 = 0" "crossings frame1 two_voxels 5 = 0"
  "crossings frame1 two_voxels 6 = 0" "crossings frame1 two_voxels 7 = 0"
  by (simp_all add: crossings_def axis_crossing_def extraction_simps frame1_def two_voxels_def)

lemma frame1_extraction:
  "CUDASurfaceExtractionKernel frame1 two_voxels [0, 1, 2, 3, 4, 5, 6, 7]
     = \<lparr>count = 1, points = [0 \<mapsto> (1 / 2, 0, 0)]\<rparr>"
  by (simp add: CUDASurfaceExtractionKernel_def LaunchGeneralKernel_def
      SurfaceExtraction_workload_def axis_step axis_crossing_def crossing_point_def
      extraction_start_def extraction_simps frame1_def two_voxels_def)

text \<open>
  Claim C3. Every point emitted by SurfaceExtraction, that is every row \<open>pt\<close> of the
  points buffer after the launch, comes from an origin voxel \<open>(xv, yv, zv)\<close> of a selected
  block and its +1 neighbour along one axis \<open>i\<close>, read at its coordinate in the block that
  the neighbour table gives and marks as allocated, such that both weights are positive
  and the two tsdf values have strictly opposite signs; its coordinate is
  \<open>voxel_size \<cdot> (world_coord + ratio \<cdot> unit_axis)\<close>, where \<open>world_coord\<close> is the block key
  times the resolution plus the voxel coordinate and
  \<open>ratio = tsdf_i / (tsdf_i - tsdf_o)\<close> is in \<open>[0, 1]\<close>. The weights of the block pool are
  not negative, as the data model has them: the kernel tests the weight of the origin
  voxel against zero.
\<close>

theorem extraction_points_are_crossings:
  assumes "\<forall>p. 0 \<le> weight (block_values p)"
    and "points (CUDASurfaceExtractionKernel a block_values sched) row = Some pt"
  shows "\<exists>workload_idx \<in> set sched. \<exists>i \<in> {0, 1, 2 :: int}. \<exists>xv yv zv.
     WorkloadToCoord3 (voxel_indexer a) (workload_idx smod resolution3 a) = (xv, yv, zv) \<and>
     (let workload_block_idx = workload_idx sdiv resolution3 a;
          block_idx = indices a workload_block_idx;
          x = block_keys a (block_idx * 3 + 0) * resolution a + xv;
          y = block_keys a (block_idx * 3 + 1) * resolution a + yv;
          z = block_keys a (block_idx * 3 + 2) * resolution a + zv;
          xv_i = xv + (if i = 0 then 1 else 0);
          yv_i = yv + (if i = 1 then 1 else 0);
          zv_i = zv + (if i = 2 then 1 else 0);
          dxb = xv_i sdiv resolution a;
          dyb = yv_i sdiv resolution a;
          dzb = zv_i sdiv resolution a;
          nb_idx = (dxb + 1) + (dyb + 1) * 3 + (dzb + 1) * 9;
          offset = nb_idx * indices_shape0 a + workload_block_idx;
          voxel_o = block_values (CoordToWorkload4 (voxel_block_buffer_indexer a) xv yv zv block_idx);
          voxel_i =
            block_values
              (CoordToWorkload4 (voxel_block_buffer_indexer a)
                 (xv_i - dxb * resolution a) (yv_i - dyb * resolution a)
                 (zv_i - dzb * resolution a) (nb_indices a offset));
          ratio = tsdf voxel_i / (tsdf voxel_i - tsdf voxel_o)
      in nb_masks a offset \<and>
         0 < weight voxel_o \<and> 0 < weight voxel_i \<and>
         (tsdf voxel_o < 0 \<and> 0 < tsdf voxel_i \<or> 0 < tsdf voxel_o \<and> tsdf voxel_i < 0) \<and>
         0 \<le> ratio \<and> ratio \<le> 1 \<and>
         pt = (voxel_size a * (real_of_int x + ratio * (if i = 0 then 1 else 0)),
               voxel_size a * (real_of_int y + ratio * (if i = 1 then 1 else 0)),
               voxel_size a * (real_of_int z + ratio * (if i = 2 then 1 else 0))))"
proof -
  from extraction_points_by_stage [OF assms]
  obtain w i where w: "w \<in> set sched" and i: "i \<in> {0, 1, 2}"
    and c: "(let voxel_o = block_values (extraction_workload_voxel a w);
          voxel_i = block_values (extraction_workload_voxel_i a w i);
          ratio = tsdf voxel_i / (tsdf voxel_i - tsdf voxel_o)
      in nb_masks a (extraction_nb_offset a w i) \<and>
         0 < weight voxel_o \<and> 0 < weight voxel_i \<and>
         (tsdf voxel_o < 0 \<and> 0 < tsdf voxel_i \<or> 0 < tsdf voxel_o \<and> tsdf voxel_i < 0) \<and>
         0 \<le> ratio \<and> ratio \<le> 1 \<and>
         (case extraction_world_coord a w of
            (x, y, z) \<Rightarrow>
              pt = (voxel_size a * (real_of_int x + ratio * (if i = 0 then 1 else 0)),
                    voxel_size a * (real_of_int y + ratio * (if i = 1 then 1 else 0)),
                    voxel_size a * (real_of_int z + ratio * (if i = 2 then 1 else 0)))))"
    by blast
  obtain xv yv zv where
    v: "WorkloadToCoord3 (voxel_indexer a) (w smod resolution3 a) = (xv, yv, zv)"
    by (cases "WorkloadToCoord3 (voxel_indexer a) (w smod resolution3 a)")
  show ?thesis
  proof (rule bexI [OF _ w], rule bexI [OF _ i], intro exI conjI)
    show "WorkloadToCoord3 (voxel_indexer a) (w smod resolution3 a) = (xv, yv, zv)" by (rule v)
    from c v show "(let workload_block_idx = w sdiv resolution3 a;
          block_idx = indices a workload_block_idx;
          x = block_keys a (block_idx * 3 + 0) * resolution a + xv;
          y = block_keys a (block_idx * 3 + 1) * resolution a + yv;
          z = block_keys a (block_idx * 3 + 2) * resolution a + zv;
          xv_i = xv + (if i = 0 then 1 else 0);
          yv_i = yv + (if i = 1 then 1 else 0);
          zv_i = zv + (if i = 2 then 1 else 0);
          dxb = xv_i sdiv resolution a;
          dyb = yv_i sdiv resolution a;
          dzb = zv_i sdiv resolution a;
          nb_idx = (dxb + 1) + (dyb + 1) * 3 + (dzb + 1) * 9;
          offset = nb_idx * indices_shape0 a + workload_block_idx;
          voxel_o = block_values (CoordToWorkload4 (voxel_block_buffer_indexer a) xv yv zv block_idx);
          voxel_i =
            block_values
              (CoordToWorkload4 (voxel_block_buffer_indexer a)
                 (xv_i - dxb * resolution a) (yv_i - dyb * resolution a)
                 (zv_i - dzb * resolution a) (nb_indices a offset));
          ratio = tsdf voxel_i / (tsdf voxel_i - tsdf voxel_o)
      in nb_masks a offset \<and>
         0 < weight voxel_o \<and> 0 < weight voxel_i \<and>
         (tsdf voxel_o < 0 \<and> 0 < tsdf voxel_i \<or> 0 < tsdf voxel_o \<and> tsdf voxel_i < 0) \<and>
         0 \<le> ratio \<and> ratio \<le> 1 \<and>
         pt = (voxel_size a * (real_of_int x + ratio * (if i = 0 then 1 else 0)),
               voxel_size a * (real_of_int y + ratio * (if i = 1 then 1 else 0)),
               voxel_size a * (real_of_int z + ratio * (if i = 2 then 1 else 0))))"
      by (simp add: Let_def extraction_workload_voxel_def extraction_workload_voxel_i_def
          extraction_nb_offset_def extraction_world_coord_def extraction_voxel_coord_def
          n_blocks_def int_of_bool_def)
  qed
qed

lemma frame2_extraction:
  "CUDASurfaceExtractionKernel frame2 pool2 [0, 1, 2, 3, 4, 5, 6, 7]
     = \<lparr>count = 1, points = [0 \<mapsto> (3 / 2, 3 / 8, 3 / 2)]\<rparr>"
  by (simp add: CUDASurfaceExtractionKernel_def LaunchGeneralKernel_def
      SurfaceExtraction_workload_def axis_step axis_crossing_def crossing_point_def
      extraction_start_def extraction_simps frame2_def pool2_def)

theorem extraction_points_are_crossings_witness:
  "(\<forall>p. 0 \<le> weight (pool2 p)) \<and>
   points (CUDASurfaceExtractionKernel frame2 pool2 [0, 1, 2, 3, 4, 5, 6, 7]) 0
     = Some (3 / 2, 3 / 8, 3 / 2) \<and>
   (\<exists>workload_idx \<in> set [0, 1, 2, 3, 4, 5, 6, 7]. \<exists>i \<in> {0, 1, 2 :: int}. \<exists>xv yv zv.
     WorkloadToCoord3 (voxel_indexer frame2) (workload_idx smod resolution3 frame2) = (xv, yv, zv) \<and>
     (let workload_block_idx = workload_idx sdiv resolution3 frame2;
          block_idx = indices frame2 workload_block_idx;
          x = block_keys frame2 (block_idx * 3 + 0) * resolution frame2 + xv;
          y = block_keys frame2 (block_idx * 3 + 1) * resolution frame2 + yv;
          z = block_keys frame2 (block_idx * 3 + 2) * resolution frame2 + zv;
          xv_i = xv + (if i = 0 then 1 else 0);
          yv_i = yv + (if i = 1 then 1 else 0);
          zv_i = zv + (if i = 2 then 1 else 0);
          dxb = xv_i sdiv resolution frame2;
          dyb = yv_i sdiv resolution frame2;
          dzb = zv_i sdiv resolution frame2;
          nb_idx = (dxb + 1) + (dyb + 1) * 3 + (dzb + 1) * 9;
          offset = nb_idx * indices_shape0 frame2 + workload_block_idx;
          voxel_o = pool2 (CoordToWorkload4 (voxel_block_buffer_indexer frame2) xv yv zv block_idx);
          voxel_i =
            pool2
              (CoordToWorkload4 (voxel_block_buffer_indexer frame2)
                 (xv_i - dxb * resolution frame2) (yv_i - dyb * resolution frame2)
                 (zv_i - dzb * resolution frame2) (nb_indices frame2 offset));
          ratio = tsdf voxel_i / (tsdf voxel_i - tsdf voxel_o)
      in nb_masks frame2 offset \<and>
         0 < weight voxel_o \<and> 0 < weight voxel_i \<and>
         (tsdf voxel_o < 0 \<and> 0 < tsdf voxel_i \<or> 0 < tsdf voxel_o \<and> tsdf voxel_i < 0) \<and>
         0 \<le> ratio \<and> ratio \<le> 1 \<and>
         (3 / 2, 3 / 8, 3 / 2) = (voxel_size frame2 * (real_of_int x + ratio * (if i = 0 then 1 else 0)),
               voxel_size frame2 * (real_of_int y + ratio * (if i = 1 then 1 else 0)),
               voxel_size frame2 * (real_of_int z + ratio * (if i = 2 then 1 else 0)))))"
proof -
  have h1: "\<forall>p. 0 \<le> weight (pool2 p)" by (simp add: pool2_def)
  have h2: "points (CUDASurfaceExtractionKernel frame2 pool2 [0, 1, 2, 3, 4, 5, 6, 7]) 0
     = Some (3 / 2, 3 / 8, 3 / 2)"
    by (simp add: frame2_extraction)
  show ?thesis
    by (rule conjI [OF h1 conjI [OF h2 extraction_points_are_crossings [OF h1 h2]]])
qed

subsection \<open>The rows of the points buffer\<close>

lemma axis_rows:
  assumes "rows_filled st"
  shows "rows_filled (SurfaceExtraction_axis a bv w i st) \<and>
     count (SurfaceExtraction_axis a bv w i st)
       = count st + int (length (filter (axis_crossing a bv w) [i]))"
proof (cases "axis_crossing a bv w i")
  case True
  from assms have "0 \<le> count st" "dom (points st) = {0..<count st}"
    by (simp_all add: rows_filled_def)
  moreover from \<open>0 \<le> count st\<close> have "insert (count st) {0..<count st} = {0..<count st + 1}"
    by auto
  ultimately show ?thesis using True
    by (simp add: axis_step rows_filled_def)
next
  case False
  with assms show ?thesis by (simp add: axis_step)
qed

lemma workload_rows:
  assumes "rows_filled st"
  shows "rows_filled (SurfaceExtraction_workload a bv w st) \<and>
     count (SurfaceExtraction_workload a bv w st) = count st + int (crossings a bv w)"
proof (cases "weight (bv (extraction_workload_voxel a w)) = 0")
  case True
  with assms show ?thesis by (simp add: SurfaceExtraction_workload_def crossings_def)
next
  case False
  let ?s0 = "SurfaceExtraction_axis a bv w 0 st"
  let ?s1 = "SurfaceExtraction_axis a bv w 1 ?s0"
  let ?s2 = "SurfaceExtraction_axis a bv w 2 ?s1"
  note r0 = axis_rows [OF assms, of a bv w 0]
  note r1 = axis_rows [OF r0 [THEN conjunct1], of a bv w 1]
  note r2 = axis_rows [OF r1 [THEN conjunct1], of a bv w 2]
  have "SurfaceExtraction_workload a bv w st = ?s2"
    using False by (simp add: SurfaceExtraction_workload_def)
  moreover have "count ?s2 = count st + int (crossings a bv w)"
    using False r0 r1 r2 by (simp add: crossings_def)
  ultimately show ?thesis using r2 by simp
qed

lemma launch_rows:
  assumes "rows_filled st"
  shows "rows_filled (fold (SurfaceExtraction_workload a bv) sched st) \<and>
     count (fold (SurfaceExtraction_workload a bv) sched st)
       = count st + (\<Sum>w\<leftarrow>sched. int (crossings a bv w))"
  using assms
proof (induction sched arbitrary: st)
  case Nil
  then show ?case by simp
next
  case (Cons w sched)
  note r = workload_rows [OF Cons.prems, of a bv w]
  from Cons.IH [OF r [THEN conjunct1]] r show ?case by simp
qed

lemma crossings_le: "crossings a bv w \<le> 3"
proof -
  have "length (filter (axis_crossing a bv w) [0, 1, 2]) \<le> length [0, 1, 2 :: int]"
    by (rule length_filter_le)
  then show ?thesis by (simp add: crossings_def)
qed

lemma sum_crossings_le: "(\<Sum>w\<leftarrow>sched. int (crossings a bv w)) \<le> 3 * int (length sched)"
proof (induction sched)
  case Nil
  then show ?case by simp
next
  case (Cons w sched)
  from crossings_le [of a bv w] have "int (crossings a bv w) \<le> 3" by simp
  with Cons show ?case by simp
qed

lemma schedule_length:
  assumes "is_schedule n sched"
  shows "int (length sched) = (if 0 \<le> n then n else 0)"
proof -
  from assms have "length sched = card {0..<n}"
    by (metis distinct_card is_schedule_def)
  then show ?thesis by simp
qed

text \<open>
  On \<open>chain_frame\<close> with \<open>striped_pool\<close>, every voxel of the first 19532 blocks has a
  zero-crossing along x: its +1 neighbour, in the same block or in the next one, has a
  tsdf of the opposite sign.
\<close>

lemma chain_voxel_coord:
  assumes "0 \<le> w"
  shows "extraction_voxel_coord chain_frame w
     = (w mod 512 mod 8, w mod 512 div 8 mod 8, w mod 512 div 8 div 8)"
proof -
  from assms have "0 \<le> w mod 512" by simp
  with assms voxel_coord_nonneg [of 8 "w mod 512"] show ?thesis
    by (simp add: extraction_voxel_coord_def voxel_indexer_def resolution3_def chain_frame_def
        smod_nonneg)
qed

lemma chain_crossing:
  assumes "0 \<le> w" and "w < 19532 * 512"
  shows "axis_crossing chain_frame striped_pool w 0"
proof -
  define k where "k = w div 512"
  define xv where "xv = w mod 512 mod 8"
  define yv where "yv = w mod 512 div 8 mod 8"
  define zv where "zv = w mod 512 div 8 div 8"
  from assms have k: "0 \<le> k" "k < 19532"
    by (simp_all add: k_def pos_imp_zdiv_nonneg_iff div_less_of_less_mult)
  have x: "0 \<le> xv" "xv < 8" and y: "0 \<le> yv" "yv < 8" by (simp_all add: xv_def yv_def)
  have "0 \<le> w mod 512 div 8" by (simp add: pos_imp_zdiv_nonneg_iff)
  moreover have "w mod 512 div 8 < 64" by (rule div_less_of_less_mult) simp_all
  ultimately have z: "0 \<le> zv" "zv < 8"
    by (simp_all add: zv_def pos_imp_zdiv_nonneg_iff div_less_of_less_mult)
  have c: "extraction_voxel_coord chain_frame w = (xv, yv, zv)"
    using assms by (simp add: chain_voxel_coord xv_def yv_def zv_def)
  have b: "w sdiv resolution3 chain_frame = k"
    using assms by (simp add: resolution3_def chain_frame_def sdiv_nonneg k_def)
  have o: "extraction_workload_voxel chain_frame w = ((k * 8 + zv) * 8 + yv) * 8 + xv"
    by (simp add: extraction_workload_voxel_def c b)
       (simp add: chain_frame_def CoordToWorkload4_def voxel_block_buffer_indexer_def)
  show ?thesis
  proof (cases "xv = 7")
    case True
    with x y z k have n: "extraction_nb_offset chain_frame w 0 = 14 * 19533 + k"
      by (simp add: extraction_nb_offset_def c b)
         (simp add: chain_frame_def n_blocks_def int_of_bool_def sdiv_nonneg)
    with True x y z k have i: "extraction_workload_voxel_i chain_frame w 0
        = (((k + 1) * 8 + zv) * 8 + yv) * 8"
      by (simp add: extraction_workload_voxel_i_def c)
         (simp add: chain_frame_def CoordToWorkload4_def voxel_block_buffer_indexer_def
           int_of_bool_def sdiv_nonneg)
    from True n k show ?thesis
      by (simp add: axis_crossing_def o i striped_pool_def) (simp add: chain_frame_def)
  next
    case False
    with x have x7: "xv + 1 < 8" by simp
    with x y z k have n: "extraction_nb_offset chain_frame w 0 = 13 * 19533 + k"
      by (simp add: extraction_nb_offset_def c b)
         (simp add: chain_frame_def n_blocks_def int_of_bool_def sdiv_nonneg)
    with x7 x y z k have i: "extraction_workload_voxel_i chain_frame w 0
        = ((k * 8 + zv) * 8 + yv) * 8 + xv + 1"
      by (simp add: extraction_workload_voxel_i_def c)
         (simp add: chain_frame_def CoordToWorkload4_def voxel_block_buffer_indexer_def
           int_of_bool_def sdiv_nonneg)
    from n k show ?thesis
      by (simp add: axis_crossing_def o i striped_pool_def) (simp add: chain_frame_def)
  qed
qed

lemma chain_crossings:
  assumes "0 \<le> w" and "w < 19532 * 512"
  shows "1 \<le> crossings chain_frame striped_pool w"
  using chain_crossing [OF assms] by (simp add: crossings_def striped_pool_def)

lemma sum_list_ge_length_filter:
  fixes f :: "'a \<Rightarrow> nat"
  assumes "\<forall>x \<in> set xs. P x \<longrightarrow> 1 \<le> f x"
  shows "int (length (filter P xs)) \<le> (\<Sum>x\<leftarrow>xs. int (f x))"
  using assms by (induction xs) auto

lemma chain_schedule: "is_schedule (extraction_n chain_frame) [0..10000895]"
proof -
  have "{0..<10000896::int} = {0..10000895}" by auto
  then show ?thesis
    by (simp add: is_schedule_def extraction_n_def n_blocks_def resolution3_def chain_frame_def)
qed

lemma chain_count:
  "10000384 \<le> count (CUDASurfaceExtractionKernel chain_frame striped_pool [0..10000895])"
proof -
  let ?P = "\<lambda>w :: int. w < 19532 * 512"
  have "{x. ?P x} \<inter> set [0..10000895] = {0..<10000384}" by auto
  then have "length (filter ?P [0..10000895]) = card {0..<10000384::int}"
    by (simp add: distinct_length_filter)
  then have l: "int (length (filter ?P [0..10000895])) = 10000384" by simp
  have "\<forall>w \<in> set [0..10000895]. ?P w \<longrightarrow> 1 \<le> crossings chain_frame striped_pool w"
    using chain_crossings by simp
  from sum_list_ge_length_filter [OF this] l
  have s: "10000384 \<le> (\<Sum>w\<leftarrow>[0..10000895]. int (crossings chain_frame striped_pool w))"
    by simp
  have "rows_filled extraction_start"
    by (simp add: rows_filled_def extraction_start_def)
  from launch_rows [OF this, of chain_frame striped_pool "[0..10000895]"] s
  show ?thesis
    by (simp add: CUDASurfaceExtractionKernel_def LaunchGeneralKernel_def extraction_start_def)
qed

text \<open>
  Claim C6. Once the buffer of \<open>min (K\<cdot>R^3\<cdot>3) 10000000\<close> rows is full, no write may occur
  at or beyond the capacity row. The kernel allocates three rows for each workload, the
  most that a workload emits, caps the buffer at 10000000 rows, and then writes the row
  that the counter gives without testing it: the launch on \<open>chain_frame\<close>, whose buffer
  has 10000000 rows, finds at least 10000384 zero-crossings and writes the row 10000000.
\<close>

theorem extraction_overflows_buffer:
  "is_schedule (extraction_n chain_frame) [0..10000895] \<and>
   points_capacity chain_frame = 10000000 \<and>
   10000000 \<in> dom (points (CUDASurfaceExtractionKernel chain_frame striped_pool [0..10000895]))"
proof -
  have c: "points_capacity chain_frame = 10000000"
    by (simp add: points_capacity_def extraction_n_def n_blocks_def resolution3_def
        chain_frame_def)
  have "rows_filled extraction_start"
    by (simp add: rows_filled_def extraction_start_def)
  from launch_rows [OF this, of chain_frame striped_pool "[0..10000895]"]
  have "dom (points (CUDASurfaceExtractionKernel chain_frame striped_pool [0..10000895]))
      = {0..<count (CUDASurfaceExtractionKernel chain_frame striped_pool [0..10000895])}"
    by (simp add: CUDASurfaceExtractionKernel_def LaunchGeneralKernel_def rows_filled_def)
  with chain_count have "10000000 \<in> dom (points (CUDASurfaceExtractionKernel chain_frame striped_pool [0..10000895]))"
    by simp
  with chain_schedule c show ?thesis by simp
qed

text \<open>
  Where the cap does not bind, \<open>K\<cdot>R^3\<cdot>3 \<le> 10000000\<close>, the buffer holds every point: the
  rows written are those below the counter, the counter is the number of zero-crossings
  that the workloads found, and every row written is below the capacity.
\<close>

lemma extraction_rows_below_capacity:
  assumes "is_schedule (extraction_n a) sched" and "extraction_n a * 3 \<le> 10000000"
  shows "dom (points (CUDASurfaceExtractionKernel a block_values sched))
           = {0..<count (CUDASurfaceExtractionKernel a block_values sched)} \<and>
         count (CUDASurfaceExtractionKernel a block_values sched)
           = (\<Sum>workload_idx\<leftarrow>sched. int (crossings a block_values workload_idx)) \<and>
         (\<forall>row \<in> dom (points (CUDASurfaceExtractionKernel a block_values sched)).
            row < points_capacity a)"
proof -
  let ?K = "CUDASurfaceExtractionKernel a block_values sched"
  have "rows_filled extraction_start"
    by (simp add: rows_filled_def extraction_start_def)
  from launch_rows [OF this, of a block_values sched]
  have f: "rows_filled ?K"
    and c: "count ?K = (\<Sum>w\<leftarrow>sched. int (crossings a block_values w))"
    by (simp_all add: CUDASurfaceExtractionKernel_def LaunchGeneralKernel_def extraction_start_def)
  from f have d: "dom (points ?K) = {0..<count ?K}" by (simp add: rows_filled_def)
  have "row < points_capacity a" if "row \<in> dom (points ?K)" for row
  proof -
    from that d have "0 \<le> row" "row < count ?K" by simp_all
    with c sum_crossings_le [of a block_values sched]
    have "row < 3 * int (length sched)" by simp
    with schedule_length [OF assms(1)] \<open>0 \<le> row\<close>
    have "row < extraction_n a * 3" by (simp split: if_splits)
    with assms(2) show ?thesis by (simp add: points_capacity_def)
  qed
  with d c show ?thesis by blast
qed

lemma frame1_extraction_schedule: "is_schedule (extraction_n frame1) [0, 1, 2, 3, 4, 5, 6, 7]"
  using frame1_schedule by (simp add: extraction_n_def integrate_n_def n_blocks_def)

lemma extraction_rows_below_capacity_frame1:
  "is_schedule (extraction_n frame1) [0, 1, 2, 3, 4, 5, 6, 7] \<and>
   extraction_n frame1 * 3 \<le> 10000000 \<and>
   points_capacity frame1 = 24 \<and>
   CUDASurfaceExtractionKernel frame1 two_voxels [0, 1, 2, 3, 4, 5, 6, 7]
     = \<lparr>count = 1, points = [0 \<mapsto> (1 / 2, 0, 0)]\<rparr> \<and>
   dom (points (CUDASurfaceExtractionKernel frame1 two_voxels [0, 1, 2, 3, 4, 5, 6, 7]))
     = {0..<count (CUDASurfaceExtractionKernel frame1 two_voxels [0, 1, 2, 3, 4, 5, 6, 7])} \<and>
   count (CUDASurfaceExtractionKernel frame1 two_voxels [0, 1, 2, 3, 4, 5, 6, 7])
     = (\<Sum>workload_idx\<leftarrow>[0, 1, 2, 3, 4, 5, 6, 7]. int (crossings frame1 two_voxels workload_idx)) \<and>
   0 < points_capacity frame1"
proof -
  have n: "extraction_n frame1 = 8"
    by (simp add: extraction_n_def n_blocks_def resolution3_def frame1_def)
  then have c: "extraction_n frame1 * 3 \<le> 10000000" by simp
  from n have p: "points_capacity frame1 = 24" by (simp add: points_capacity_def)
  note t = extraction_rows_below_capacity [OF frame1_extraction_schedule c, of two_voxels]
  from t have r: "0 < points_capacity frame1"
    by (simp add: frame1_extraction)
  from frame1_extraction_schedule c p frame1_extraction t [THEN conjunct1]
    t [THEN conjunct2, THEN conjunct1] r
  show ?thesis by blast
qed

section \<open>Properties of the central differences of Marching Cubes\<close>

text \<open>
  Claim C5 says that in both loops \<open>dybs[1]\<close> and \<open>dzbs[1]\<close> are computed from \<open>xvs[1]\<close>.
  For the voxel \<open>(0, 0, 1)\<close> of a block of resolution 2 and the axis 2, \<open>zvs[1]\<close> is 2 and
  \<open>dzbs[1]\<close> is 1, while \<open>xvs[1] / resolution\<close> is 0.
\<close>

theorem mc_offsets_not_both_from_xvs:
  "\<not> (dybs (origin_offsets frame1 (0, 0, 1) 2) ! 1
        = xvs (origin_offsets frame1 (0, 0, 1) 2) ! 1 sdiv resolution frame1 \<and>
      dzbs (origin_offsets frame1 (0, 0, 1) 2) ! 1
        = xvs (origin_offsets frame1 (0, 0, 1) 2) ! 1 sdiv resolution frame1)"
  by (simp add: origin_offsets_def frame1_def int_of_bool_def signed_divide_int_def)

text \<open>
  Claim C5, amended. In the origin-normal and the edge-normal loops, \<open>dybs[1]\<close> is
  computed from \<open>xvs[1]\<close> (\<open>dybs[1] = xvs[1] / resolution\<close>, the line of \<open>dxbs[1]\<close> a
  second time), and \<open>dzbs[1]\<close> is computed from \<open>zvs[1]\<close>
  (\<open>dzbs[1] = zvs[1] / resolution\<close>).
\<close>

theorem mc_plus_offsets:
  "dybs (origin_offsets a v axis) ! 1 = xvs (origin_offsets a v axis) ! 1 sdiv resolution a \<and>
   dzbs (origin_offsets a v axis) ! 1 = zvs (origin_offsets a v axis) ! 1 sdiv resolution a \<and>
   dybs (edge_offsets a v_e axis) ! 1 = xvs (edge_offsets a v_e axis) ! 1 sdiv resolution a \<and>
   dzbs (edge_offsets a v_e axis) ! 1 = zvs (edge_offsets a v_e axis) ! 1 sdiv resolution a"
  by (simp add: origin_offsets_def edge_offsets_def Let_def split: prod.splits)

section \<open>Properties of the decoding of the tensor maps\<close>

text \<open>
  The loop over the required names raises on the first that is missing, with a message
  that holds the name and the word between the brackets.
\<close>

lemma check_src_attrs_complete:
  "\<forall>k \<in> set attrs. srcs k \<noteq> None \<Longrightarrow> check_src_attrs tag attrs srcs = None"
  by (induction attrs) simp_all

lemma check_src_attrs_missing:
  assumes "k \<in> set attrs" and "srcs k = None"
  shows "\<exists>k' \<in> set attrs. srcs k' = None \<and>
     check_src_attrs tag attrs srcs
       = Some (LogError (''['' @ tag @ ''] expected Tensor '' @ k'
                           @ '' in srcs, but did not receive''))"
  using assms by (induction attrs) auto

text \<open>
  Claim C7 says that a missing required key raises a fatal error whose message names the
  missing key and the op being executed. SurfaceExtraction called without \<open>indices\<close>
  raises the message of another kernel, \<open>CPUTSDFIntegrateKernel\<close>, and Integrate called
  without the destination \<open>block_values\<close> raises \<^verbatim>\<open>std::out_of_range\<close>, which names
  neither key nor op.
\<close>

theorem missing_key_errors:
  "GeneralEWCUDA_decode
     (tensor_map [''nb_indices'', ''nb_masks'', ''block_keys'', ''block_values'',
                  ''voxel_size'', ''resolution''])
     (tensor_map []) OpTSDFSurfaceExtraction
   = Some (LogError ''[CPUTSDFIntegrateKernel] expected Tensor indices in srcs, but did not receive'')
   \<and> \<not> sublist ''SurfaceExtraction''
          ''[CPUTSDFIntegrateKernel] expected Tensor indices in srcs, but did not receive''
   \<and> GeneralEWCUDA_decode
       (tensor_map [''depth'', ''indices'', ''block_keys'', ''intrinsics'', ''extrinsics'',
                    ''resolution'', ''voxel_size'', ''sdf_trunc'', ''depth_scale''])
       (tensor_map []) OpTSDFIntegrate
     = Some out_of_range"
  by (simp add: CUDASurfaceExtractionKernel_decode_def CUDATSDFIntegrateKernel_decode_def
      tensor_map_def at_key_def sublist_Cons_right)

end
